theory Spec2Isabelle
  imports
    Complex_Main
    "HOL-Library.Sublist"
    "HOL-Library.Multiset"
    "HOL-Library.Product_Lexorder"
    "HOL-Library.Char_ord"
    "HOL-Library.List_Lexorder"
begin

section \<open>Data model of the deal explorer (app6.py)\<close>

text \<open>
  The script keeps its data in pandas frames. A frame is modelled as the list of its rows,
  in frame order, and a cell that pandas holds as NaN / NaT / None is \<open>None\<close>.

  A pandas \<open>Timestamp\<close> is modelled by its calendar fields (year, month, day, nanoseconds
  since midnight); comparing two timestamps is comparing these fields lexicographically,
  which is what the product order does. A \<open>datetime.date\<close> from the sidebar has the first
  three fields only. Deal values are float64 in the source; they are modelled as reals, so
  comparisons, minima and maxima are exact and \<open>round(x, 2)\<close> is the round-half-even
  rounding of \<open>100 * x\<close> that numpy performs, without the binary representation error.
  Strings are byte strings, and only ASCII white space is stripped.
\<close>

type_synonym timestamp = "nat \<times> nat \<times> nat \<times> nat"
type_synonym date = "nat \<times> nat \<times> nat"

text \<open>One row of the sheet "Deal Screening Data.xlsx" after lines 11 to 13 of the script:
  the date and the deal value have been coerced, and what could not be parsed is missing.\<close>

record deal =
  Target_Company_Name :: "string option"
  Date :: "timestamp option"
  Deal_Value :: "real option"
  Deal_Type :: "string option"
  Buyer_s :: "string option"

text \<open>One row of the frame that \<open>load_data\<close> returns: the columns of the sheet, the
  exploded column \<open>Buyer List\<close> and the column \<open>Formatted Date\<close>.\<close>

record row = deal +
  Buyer_List :: "string option"
  Formatted_Date :: "string option"

datatype error = ValueError

subsection \<open>Strings\<close>

definition isspace :: "char \<Rightarrow> bool" where
  "isspace c \<longleftrightarrow>
     c \<in> set [CHR 0x09, CHR 0x0A, CHR 0x0B, CHR 0x0C, CHR 0x0D,
               CHR 0x1C, CHR 0x1D, CHR 0x1E, CHR 0x1F, CHR 0x20]"

definition strip :: "string \<Rightarrow> string" where
  "strip s = rev (dropWhile isspace (rev (dropWhile isspace s)))"

text \<open>\<open>s.split(c)\<close>: the pieces between the separators; never an empty list.\<close>

fun split :: "char \<Rightarrow> string \<Rightarrow> string list" where
  "split c [] = [[]]"
| "split c (x # xs) =
     (if x = c then [] # split c xs
      else (case split c xs of [] \<Rightarrow> [[x]] | w # ws \<Rightarrow> (x # w) # ws))"

definition digit :: "nat \<Rightarrow> char" where
  "digit n = ''0123456789'' ! (n mod 10)"

definition pad2 :: "nat \<Rightarrow> string" where
  "pad2 n = [digit (n div 10), digit n]"

text \<open>\<open>strftime('%d-%m-%Y')\<close>. The years of a pandas timestamp lie between 1677 and 2262,
  so \<open>%Y\<close> is four digits.\<close>

definition strftime :: "timestamp \<Rightarrow> string" where
  "strftime t =
     (case t of (y, m, d, ns) \<Rightarrow>
        pad2 d @ ''-'' @ pad2 m @ ''-'' @ pad2 (y div 100) @ pad2 y)"

text \<open>\<open>str(i)\<close> for a non-negative integer.\<close>

fun str_nat :: "nat \<Rightarrow> string" where
  "str_nat n = (if n < 10 then [digit n] else str_nat (n div 10) @ [digit n])"

declare str_nat.simps [simp del]

subsection \<open>The loader\<close>

text \<open>Line 14: \<open>fillna('')\<close>, \<open>astype(str)\<close>, then the list comprehension
  \<open>[i.strip() for i in x.split(',') if i.strip()]\<close>.\<close>

definition buyer_tokens :: "string option \<Rightarrow> string list" where
  "buyer_tokens cell =
     (let x = (case cell of None \<Rightarrow> [] | Some s \<Rightarrow> s)
      in map strip (filter (\<lambda>i. strip i \<noteq> []) (split CHR '','' x)))"

text \<open>Line 15: \<open>DataFrame.explode\<close> repeats the row once for each element of the list
  and keeps a row whose list is empty, with a missing value in the exploded column.\<close>

definition explode :: "'a list \<Rightarrow> 'a option list" where
  "explode xs = (if xs = [] then [None] else map Some xs)"

text \<open>Lines 14 to 17 on one row of the sheet.\<close>

definition expand :: "deal \<Rightarrow> row list" where
  "expand d =
     map (\<lambda>b. \<lparr> Target_Company_Name = Target_Company_Name d,
                Date = Date d,
                Deal_Value = Deal_Value d,
                Deal_Type = Deal_Type d,
                Buyer_s = Buyer_s d,
                Buyer_List = map_option strip b,
                Formatted_Date = map_option strftime (Date d) \<rparr>)
         (explode (buyer_tokens (Buyer_s d)))"

definition load_data :: "deal list \<Rightarrow> row list" where
  "load_data sheet = concat (map expand sheet)"

subsection \<open>The filter\<close>

text \<open>\<open>pd.to_datetime\<close> of a \<open>datetime.date\<close>: midnight of that day.\<close>

definition to_datetime :: "date \<Rightarrow> timestamp" where
  "to_datetime dt = (case dt of (y, m, d) \<Rightarrow> (y, m, d, 0))"

text \<open>A comparison with a missing cell is false.\<close>

definition ge_na :: "'a::linorder option \<Rightarrow> 'a \<Rightarrow> bool" where
  "ge_na c x = (case c of None \<Rightarrow> False | Some v \<Rightarrow> x \<le> v)"

definition le_na :: "'a::linorder option \<Rightarrow> 'a \<Rightarrow> bool" where
  "le_na c x = (case c of None \<Rightarrow> False | Some v \<Rightarrow> v \<le> x)"

text \<open>Lines 38 to 42: the boolean mask and the selection of the rows it marks.\<close>

definition filtered_df :: "row list \<Rightarrow> date \<Rightarrow> date \<Rightarrow> real \<Rightarrow> row list" where
  "filtered_df df from_date to_date deal_value =
     filter (\<lambda>r. ge_na (Date r) (to_datetime from_date) \<and>
                 le_na (Date r) (to_datetime to_date) \<and>
                 ge_na (Deal_Value r) deal_value) df"

text \<open>The two module-level frames of the script; the filter statement assigns the second.\<close>

record globals =
  g_df :: "row list"
  g_filtered_df :: "row list"

definition filter_stmt :: "date \<Rightarrow> date \<Rightarrow> real \<Rightarrow> globals \<Rightarrow> globals" where
  "filter_stmt from_date to_date deal_value g =
     g \<lparr> g_filtered_df := filtered_df (g_df g) from_date to_date deal_value \<rparr>"

subsection \<open>Columns and their reductions\<close>

text \<open>\<open>Series.dropna\<close>, \<open>Series.min\<close> and \<open>Series.max\<close> (which skip missing cells and
  are missing on a column without values), and \<open>Series.count\<close>.\<close>

fun dropna :: "'a option list \<Rightarrow> 'a list" where
  "dropna [] = []"
| "dropna (None # cs) = dropna cs"
| "dropna (Some v # cs) = v # dropna cs"

definition series_min :: "'a::linorder option list \<Rightarrow> 'a option" where
  "series_min col = (case dropna col of [] \<Rightarrow> None | v # vs \<Rightarrow> Some (fold min vs v))"

definition series_max :: "'a::linorder option list \<Rightarrow> 'a option" where
  "series_max col = (case dropna col of [] \<Rightarrow> None | v # vs \<Rightarrow> Some (fold max vs v))"

definition series_count :: "'a option list \<Rightarrow> nat" where
  "series_count col = length (dropna col)"

text \<open>Lines 25, 26 and 31: the bounds and the minimum that the sidebar offers at first,
  namely the days of the earliest and of the latest deal and the least deal value.
  \<open>Timestamp.date()\<close> keeps the day and leaves out the time of day.\<close>

definition date_of :: "timestamp \<Rightarrow> date" where
  "date_of t = (case t of (y, m, d, ns) \<Rightarrow> (y, m, d))"

definition min_date :: "row list \<Rightarrow> date option" where
  "min_date df = map_option date_of (series_min (map Date df))"

definition max_date :: "row list \<Rightarrow> date option" where
  "max_date df = map_option date_of (series_max (map Date df))"

definition min_val :: "row list \<Rightarrow> real option" where
  "min_val df = series_min (map Deal_Value df)"

text \<open>\<open>round(x, 2)\<close>: the nearest multiple of one hundredth, a tie going to the even
  one. On reals this is \<open>rint(100 * x) / 100\<close>, and it is also the number that the format
  \<open>.2f\<close> prints.\<close>

definition rint :: "real \<Rightarrow> int" where
  "rint x =
     (let f = \<lfloor>x\<rfloor>; d = x - of_int f
      in if d < 1 / 2 then f else if 1 / 2 < d then f + 1 else if even f then f else f + 1)"

definition round2 :: "real \<Rightarrow> real" where
  "round2 x = of_int (rint (100 * x)) / 100"

text \<open>Keeping the first row of each key, in frame order: \<open>Series.unique\<close> and
  \<open>DataFrame.drop_duplicates\<close>. Two missing cells count as the same value there.\<close>

fun keep_first :: "('a \<Rightarrow> 'k) \<Rightarrow> 'k list \<Rightarrow> 'a list \<Rightarrow> 'a list" where
  "keep_first f seen [] = []"
| "keep_first f seen (x # xs) =
     (if f x \<in> set seen then keep_first f seen xs else x # keep_first f (f x # seen) xs)"

definition unique :: "'a list \<Rightarrow> 'a list" where
  "unique col = keep_first (\<lambda>x. x) [] col"

text \<open>An elementwise \<open>==\<close> against a scalar: false on a missing cell, also when the scalar
  is itself missing.\<close>

definition eq_na :: "'a option \<Rightarrow> 'a option \<Rightarrow> bool" where
  "eq_na c x \<longleftrightarrow> c \<noteq> None \<and> c = x"

text \<open>\<open>sort_values('Date')\<close>: ascending, rows without a date last. Rows of the same date
  keep their frame order here; the default sort of pandas promises no order among them.\<close>

definition date_sort_key :: "row \<Rightarrow> nat \<times> timestamp" where
  "date_sort_key r = (case Date r of None \<Rightarrow> (1, (0, 0, 0, 0)) | Some t \<Rightarrow> (0, t))"

definition sort_values_Date :: "row list \<Rightarrow> row list" where
  "sort_values_Date rows = sort_key date_sort_key rows"

subsection \<open>The report builder: sheet "Buyer Summary"\<close>

record summary_row =
  Buyer :: string
  Number_of_Deals :: nat
  First_Deal_Date :: string
  Last_Deal_Date :: string
  Min_Deal_Value :: "real option"
  Max_Deal_Value :: "real option"

text \<open>The five aggregations of lines 50 to 54 on the rows of one buyer. \<open>strftime\<close> on a
  missing minimum raises.\<close>

definition agg :: "string \<Rightarrow> row list \<Rightarrow> error + summary_row" where
  "agg b g =
     (case series_min (map Date g) of
        None \<Rightarrow> Inl ValueError
      | Some lo \<Rightarrow>
          (case series_max (map Date g) of
             None \<Rightarrow> Inl ValueError
           | Some hi \<Rightarrow>
               Inr \<lparr> Buyer = b,
                     Number_of_Deals = series_count (map Target_Company_Name g),
                     First_Deal_Date = strftime lo,
                     Last_Deal_Date = strftime hi,
                     Min_Deal_Value = map_option round2 (series_min (map Deal_Value g)),
                     Max_Deal_Value = map_option round2 (series_max (map Deal_Value g)) \<rparr>))"

fun collect :: "(error + 'a) list \<Rightarrow> error + 'a list" where
  "collect [] = Inr []"
| "collect (Inl e # rs) = Inl e"
| "collect (Inr v # rs) = (case collect rs of Inl e \<Rightarrow> Inl e | Inr vs \<Rightarrow> Inr (v # vs))"

text \<open>\<open>groupby('Buyer List')\<close>: one group for each buyer name, rows without a buyer in
  no group, the groups in the order of their names.\<close>

definition group_keys :: "row list \<Rightarrow> string list" where
  "group_keys data = sort (remdups (dropna (map Buyer_List data)))"

definition summary :: "row list \<Rightarrow> error + summary_row list" where
  "summary data =
     collect (map (\<lambda>b. agg b (filter (\<lambda>r. Buyer_List r = Some b) data)) (group_keys data))"

subsection \<open>The report builder: sheet "Buyer Deal Details"\<close>

datatype cell = Text string | Number real | NA

definition text_cell :: "string option \<Rightarrow> cell" where
  "text_cell c = (case c of None \<Rightarrow> NA | Some s \<Rightarrow> Text s)"

definition number_cell :: "real option \<Rightarrow> cell" where
  "number_cell c = (case c of None \<Rightarrow> NA | Some v \<Rightarrow> Number v)"

text \<open>Line 58.\<close>

definition drop_duplicates :: "row list \<Rightarrow> row list" where
  "drop_duplicates data =
     keep_first (\<lambda>r. (Buyer_List r, Target_Company_Name r, Date r, Deal_Value r)) [] data"

text \<open>Lines 61 to 71: for each value of the buyer column, the rows of that buyer by date
  and the three cells of each such row, appended.\<close>

definition buyer_df :: "row list \<Rightarrow> string option \<Rightarrow> row list" where
  "buyer_df data buyer = sort_values_Date (filter (\<lambda>r. eq_na (Buyer_List r) buyer) data)"

definition triple :: "row \<Rightarrow> cell list" where
  "triple r =
     [text_cell (Formatted_Date r),
      text_cell (Target_Company_Name r),
      number_cell (map_option round2 (Deal_Value r))]"

definition deal_info :: "row list \<Rightarrow> cell list" where
  "deal_info rows = concat (map triple rows)"

definition deal_dict :: "row list \<Rightarrow> (string option \<times> cell list) list" where
  "deal_dict data =
     map (\<lambda>buyer. (buyer, deal_info (buyer_df data buyer))) (unique (map Buyer_List data))"

text \<open>Lines 74 to 76: \<open>DataFrame.from_dict(orient='index')\<close> makes one row for each key,
  as wide as the longest list, and fills the shorter rows with missing cells;
  \<open>reset_index\<close> puts the key in front as a column of its own.\<close>

definition frame_width :: "('k \<times> cell list) list \<Rightarrow> nat" where
  "frame_width d = fold max (map (\<lambda>kv. length (snd kv)) d) 0"

definition from_dict_index :: "('k \<times> cell list) list \<Rightarrow> ('k \<times> cell list) list" where
  "from_dict_index d =
     map (\<lambda>kv. (fst kv, snd kv @ replicate (frame_width d - length (snd kv)) NA)) d"

definition reset_index :: "(string option \<times> cell list) list \<Rightarrow> cell list list" where
  "reset_index d = map (\<lambda>kv. text_cell (fst kv) # snd kv) d"

text \<open>Lines 79 to 84.\<close>

definition col_headers :: "nat \<Rightarrow> string list" where
  "col_headers num_deals =
     ''Buyer Name'' #
     concat (map (\<lambda>i. [''Date '' @ str_nat i,
                        ''Deal '' @ str_nat i,
                        ''Deal Value '' @ str_nat i @ '' (in Mn USD)''])
                 [1 ..< num_deals + 1])"

record details_sheet =
  columns :: "string list"
  body :: "cell list list"

text \<open>Lines 74 to 86. Assigning a list of headers of the wrong length raises.\<close>

definition deals_df :: "row list \<Rightarrow> error + details_sheet" where
  "deals_df data =
     (let d = deal_dict data;
          shape1 = 1 + frame_width d;
          num_deal_columns = shape1 - 1;
          num_deals = num_deal_columns div 3;
          headers = col_headers num_deals
      in if length headers \<noteq> shape1 then Inl ValueError
         else Inr \<lparr> columns = headers, body = reset_index (from_dict_index d) \<rparr>)"

subsection \<open>The report builder: colouring the groups of three columns\<close>

definition light_colors :: "string list" where
  "light_colors = [''#f2f2f2'', ''#e6f7ff'', ''#f9f9f9'', ''#eafbea'']"

text \<open>\<open>range(start, stop, step)\<close> for a positive step.\<close>

definition py_range :: "nat \<Rightarrow> nat \<Rightarrow> nat \<Rightarrow> nat list" where
  "py_range start stop step =
     map (\<lambda>k. start + step * k) [0 ..< (stop - start + step - 1) div step]"

text \<open>Line 114: \<open>light_colors[(i-1// 3) % len(light_colors)][1:]\<close>. In Python, as here,
  \<open>//\<close> binds tighter than \<open>-\<close>.\<close>

definition fill_color :: "int \<Rightarrow> string" where
  "fill_color i = drop 1 (light_colors ! nat ((i - 1 div 3) mod int (length light_colors)))"

text \<open>Lines 113 to 119: for each \<open>i\<close> of the range, the fill and the sheet columns
  \<open>i + 1\<close> to \<open>i + 3\<close> (counted from 1) that receive it, on every row below the header.\<close>

definition fills :: "nat \<Rightarrow> (nat list \<times> string) list" where
  "fills shape1 =
     map (\<lambda>i. ([i + 1, i + 2, i + 3], fill_color (int i))) (py_range 1 (shape1 - 1) 3)"

record workbook =
  Buyer_Summary :: "summary_row list"
  Buyer_Deal_Details :: details_sheet
  Details_Fill :: "(nat list \<times> string) list"

text \<open>The whole of \<open>prepare_excel_summary\<close>: the summary of the frame as it was passed,
  the details of the frame without its duplicates, and the fills. Borders, alignment,
  fonts and column widths are left out.\<close>

definition prepare_excel_summary :: "row list \<Rightarrow> error + workbook" where
  "prepare_excel_summary data0 =
     (case summary data0 of
        Inl e \<Rightarrow> Inl e
      | Inr s \<Rightarrow>
          (let data = drop_duplicates data0
           in case deals_df data of
                Inl e \<Rightarrow> Inl e
              | Inr dd \<Rightarrow>
                  Inr \<lparr> Buyer_Summary = s,
                        Buyer_Deal_Details = dd,
                        Details_Fill = fills (length (columns dd)) \<rparr>))"

subsection \<open>The presentation layer\<close>

text \<open>Line 45.\<close>

definition unique_buyers :: "row list \<Rightarrow> string list" where
  "unique_buyers filtered = sort (unique (dropna (map Buyer_List filtered)))"

text \<open>Lines 162 and 163.\<close>

definition shown_buyer_df :: "row list \<Rightarrow> string \<Rightarrow> row list" where
  "shown_buyer_df filtered buyer =
     sort_values_Date
       (keep_first (\<lambda>r. (Target_Company_Name r, Date r, Deal_Value r)) []
          (filter (\<lambda>r. eq_na (Buyer_List r) (Some buyer)) filtered))"

record buyer_panel =
  Total_Deals :: nat
  First_Investment :: string
  Most_Recent_Investment :: string
  Min_Deal_Value_shown :: "real option"
  Max_Deal_Value_shown :: "real option"

text \<open>Lines 165 to 175 for one selected buyer: \<open>None\<close> is the warning "No deals found.";
  the two values are the numbers that the format \<open>,.2f\<close> prints.\<close>

definition render_buyer :: "row list \<Rightarrow> string \<Rightarrow> error + buyer_panel option" where
  "render_buyer filtered buyer =
     (let bdf = shown_buyer_df filtered buyer
      in if bdf = [] then Inr None
         else (case series_min (map Date bdf) of
                 None \<Rightarrow> Inl ValueError
               | Some lo \<Rightarrow>
                   (case series_max (map Date bdf) of
                      None \<Rightarrow> Inl ValueError
                    | Some hi \<Rightarrow>
                        Inr (Some \<lparr> Total_Deals = length bdf,
                                   First_Investment = strftime lo,
                                   Most_Recent_Investment = strftime hi,
                                   Min_Deal_Value_shown =
                                     map_option round2 (series_min (map Deal_Value bdf)),
                                   Max_Deal_Value_shown =
                                     map_option round2 (series_max (map Deal_Value bdf)) \<rparr>))))"

section \<open>What the claims speak of\<close>

text \<open>The number of deals of a buyer once the exact duplicates are gone, and the largest
  such number over the buyers named in the frame (0 when no row names a buyer).\<close>

definition deal_count :: "row list \<Rightarrow> string option \<Rightarrow> nat" where
  "deal_count data0 b = length (buyer_df (drop_duplicates data0) b)"

definition max_deals :: "row list \<Rightarrow> nat" where
  "max_deals data0 =
     Max (insert 0 ((\<lambda>b. deal_count data0 (Some b)) ` set (dropna (map Buyer_List data0))))"

text \<open>The timestamps that pandas can hold, and the day that a cell of the form
  day-month-year shows, read back from its ten characters.\<close>

definition valid_timestamp :: "timestamp \<Rightarrow> bool" where
  "valid_timestamp t =
     (case t of (y, m, d, ns) \<Rightarrow>
        1677 \<le> y \<and> y \<le> 2262 \<and> 1 \<le> m \<and> m \<le> 12 \<and> 1 \<le> d \<and> d \<le> 31 \<and>
        ns < 86400000000000)"

definition digit_value :: "char \<Rightarrow> nat" where
  "digit_value c = of_char c - 48"

definition date_shown :: "cell \<Rightarrow> date option" where
  "date_shown c =
     (case c of
        Text s \<Rightarrow>
          if length s = 10
          then Some (1000 * digit_value (s ! 6) + 100 * digit_value (s ! 7) +
                       10 * digit_value (s ! 8) + digit_value (s ! 9),
                     10 * digit_value (s ! 3) + digit_value (s ! 4),
                     10 * digit_value (s ! 0) + digit_value (s ! 1))
          else None
      | _ \<Rightarrow> None)"

text \<open>The rows of one buyer, and the summary row that the code computes for them on a frame
  without missing dates and values, the count taken over the rows that have a target
  company name.\<close>

definition group_of :: "row list \<Rightarrow> string \<Rightarrow> row list" where
  "group_of data b = filter (\<lambda>r. Buyer_List r = Some b) data"

definition expected_summary_row :: "row list \<Rightarrow> string \<Rightarrow> summary_row" where
  "expected_summary_row data b =
     \<lparr> Buyer = b,
       Number_of_Deals = length (filter (\<lambda>r. Target_Company_Name r \<noteq> None) (group_of data b)),
       First_Deal_Date = strftime (Min ((\<lambda>r. the (Date r)) ` set (group_of data b))),
       Last_Deal_Date = strftime (Max ((\<lambda>r. the (Date r)) ` set (group_of data b))),
       Min_Deal_Value = Some (round2 (Min ((\<lambda>r. the (Deal_Value r)) ` set (group_of data b)))),
       Max_Deal_Value = Some (round2 (Max ((\<lambda>r. the (Deal_Value r)) ` set (group_of data b)))) \<rparr>"

subsection \<open>Sample data\<close>

text \<open>A deal whose buyer cell names the same buyer twice, and the row it expands to.\<close>

definition deal_twice :: deal where
  "deal_twice =
     \<lparr> Target_Company_Name = Some ''Acme'', Date = Some (2021, 3, 7, 0),
       Deal_Value = Some 5, Deal_Type = Some ''PE'', Buyer_s = Some ''Alpha, Alpha'' \<rparr>"

definition row_twice :: row where
  "row_twice =
     \<lparr> Target_Company_Name = Some ''Acme'', Date = Some (2021, 3, 7, 0),
       Deal_Value = Some 5, Deal_Type = Some ''PE'', Buyer_s = Some ''Alpha, Alpha'',
       Buyer_List = Some ''Alpha'', Formatted_Date = Some ''07-03-2021'' \<rparr>"

text \<open>A deal whose buyer cell holds a comma between blanks, one whose buyer cell is empty,
  and the rows they expand to.\<close>

definition deal_commas :: deal where
  "deal_commas =
     \<lparr> Target_Company_Name = Some ''Bolt'', Date = Some (2021, 4, 1, 0),
       Deal_Value = Some 12, Deal_Type = Some ''VC'', Buyer_s = Some '' , '' \<rparr>"

definition row_commas :: row where
  "row_commas =
     \<lparr> Target_Company_Name = Some ''Bolt'', Date = Some (2021, 4, 1, 0),
       Deal_Value = Some 12, Deal_Type = Some ''VC'', Buyer_s = Some '' , '',
       Buyer_List = None, Formatted_Date = Some ''01-04-2021'' \<rparr>"

definition deal_blank :: deal where
  "deal_blank =
     \<lparr> Target_Company_Name = Some ''Core'', Date = Some (2021, 5, 2, 0),
       Deal_Value = Some 8, Deal_Type = Some ''VC'', Buyer_s = None \<rparr>"

definition row_blank :: row where
  "row_blank =
     \<lparr> Target_Company_Name = Some ''Core'', Date = Some (2021, 5, 2, 0),
       Deal_Value = Some 8, Deal_Type = Some ''VC'', Buyer_s = None,
       Buyer_List = None, Formatted_Date = Some ''02-05-2021'' \<rparr>"

text \<open>A row of a named buyer whose target company cell is empty.\<close>

definition row_unnamed :: row where
  "row_unnamed =
     \<lparr> Target_Company_Name = None, Date = Some (2021, 6, 3, 0),
       Deal_Value = Some 9, Deal_Type = Some ''PE'', Buyer_s = Some ''Alpha'',
       Buyer_List = Some ''Alpha'', Formatted_Date = Some ''03-06-2021'' \<rparr>"

text \<open>Rows and deals with one buyer and every cell filled.\<close>

definition sample :: "string \<Rightarrow> string \<Rightarrow> timestamp \<Rightarrow> real \<Rightarrow> row" where
  "sample buyer target d v =
     \<lparr> Target_Company_Name = Some target, Date = Some d, Deal_Value = Some v,
       Deal_Type = Some ''PE'', Buyer_s = Some buyer,
       Buyer_List = Some buyer, Formatted_Date = Some (strftime d) \<rparr>"

definition sample_deal :: "string \<Rightarrow> string \<Rightarrow> timestamp \<Rightarrow> real \<Rightarrow> deal" where
  "sample_deal buyer target d v =
     \<lparr> Target_Company_Name = Some target, Date = Some d, Deal_Value = Some v,
       Deal_Type = Some ''PE'', Buyer_s = Some buyer \<rparr>"

text \<open>Three buyers with one, three and five deals.\<close>

definition rows_135 :: "row list" where
  "rows_135 =
     [sample ''C'' ''T1'' (2021, 1, 5, 0) 10,
      sample ''A'' ''T2'' (2021, 2, 5, 0) 20,
      sample ''B'' ''T3'' (2021, 3, 5, 0) 30,
      sample ''C'' ''T4'' (2021, 4, 5, 0) 40,
      sample ''B'' ''T5'' (2021, 5, 5, 0) 50,
      sample ''C'' ''T6'' (2021, 6, 5, 0) 60,
      sample ''C'' ''T7'' (2021, 7, 5, 0) 70,
      sample ''B'' ''T8'' (2021, 8, 5, 0) 80,
      sample ''C'' ''T9'' (2021, 9, 5, 0) 90]"

text \<open>A buyer with deals of 7, 2.5 and 3.25 on three days, not in the order of the days,
  next to another buyer.\<close>

definition rows_abc :: "row list" where
  "rows_abc =
     [sample ''Alpha'' ''T2'' (2021, 2, 5, 0) 7,
      sample ''Beta'' ''T9'' (2021, 2, 6, 0) 1,
      sample ''Alpha'' ''T1'' (2021, 1, 5, 0) (5 / 2),
      sample ''Alpha'' ''T3'' (2021, 3, 5, 0) (13 / 4)]"

text \<open>A sheet of two deals of one buyer, the later deal first.\<close>

definition sheet_two :: "deal list" where
  "sheet_two =
     [sample_deal ''Alpha'' ''T2'' (2021, 2, 5, 0) 7,
      sample_deal ''Alpha'' ''T1'' (2021, 1, 5, 0) 3]"

text \<open>Four rows around the bounds 7 March and 9 March 2021, and one stamped at ten
  o'clock on 9 March.\<close>

definition rows_bounds :: "row list" where
  "rows_bounds =
     [sample ''Alpha'' ''T1'' (2021, 3, 6, 0) 5,
      sample ''Alpha'' ''T2'' (2021, 3, 7, 0) 5,
      sample ''Alpha'' ''T3'' (2021, 3, 9, 0) 5,
      sample ''Alpha'' ''T4'' (2021, 3, 10, 0) 5,
      sample ''Alpha'' ''T5'' (2021, 3, 9, 36000000000000) 5]"

text \<open>A frame whose latest deal is stamped at ten o'clock.\<close>

definition rows_late :: "row list" where
  "rows_late =
     [sample ''Alpha'' ''T1'' (2021, 3, 6, 0) 5,
      sample ''Alpha'' ''T5'' (2021, 3, 9, 36000000000000) 5]"

text \<open>The workbook that the report builder makes of the sheet of two deals.\<close>

definition workbook_two :: workbook where
  "workbook_two =
     \<lparr> Buyer_Summary =
         [\<lparr> Buyer = ''Alpha'', Number_of_Deals = 2,
            First_Deal_Date = ''05-01-2021'', Last_Deal_Date = ''05-02-2021'',
            Min_Deal_Value = Some 3, Max_Deal_Value = Some 7 \<rparr>],
       Buyer_Deal_Details =
         \<lparr> columns = [''Buyer Name'',
                      ''Date 1'', ''Deal 1'', ''Deal Value 1 (in Mn USD)'',
                      ''Date 2'', ''Deal 2'', ''Deal Value 2 (in Mn USD)''],
           body = [[Text ''Alpha'', Text ''05-01-2021'', Text ''T1'', Number 3,
                    Text ''05-02-2021'', Text ''T2'', Number 7]] \<rparr>,
       Details_Fill = [([2, 3, 4], ''e6f7ff''), ([5, 6, 7], ''f2f2f2'')] \<rparr>"

section \<open>Properties of the parts\<close>

subsection \<open>Strings and the loader\<close>

lemma dropWhile_fix: "xs = [] \<or> \<not> P (hd xs) \<Longrightarrow> dropWhile P xs = xs"
  by (cases xs) auto

lemma strip_Nil: "strip [] = []"
  by (simp add: strip_def)

lemma strip_strip: "strip (strip s) = strip s"
proof (cases "strip s = []")
  case True
  then show ?thesis by (simp add: strip_Nil)
next
  case False
  define a where "a = dropWhile isspace s"
  define b where "b = strip s"
  have b: "rev b = dropWhile isspace (rev a)"
    by (simp add: b_def a_def strip_def)
  have nb: "b \<noteq> []" using False by (simp add: b_def)
  then have "rev b \<noteq> []" by simp
  then have "\<not> isspace (hd (rev b))"
    unfolding b by (rule hd_dropWhile)
  then have 1: "dropWhile isspace (rev b) = rev b"
    by (simp add: dropWhile_fix)
  have "rev a = takeWhile isspace (rev a) @ rev b"
    by (simp add: b)
  then have "a = b @ rev (takeWhile isspace (rev a))"
    by (metis rev_append rev_rev_ident)
  then have hd: "hd a = hd b" and na: "a \<noteq> []"
    using nb by (metis hd_append2, metis append_is_Nil_conv)
  have "\<not> isspace (hd a)"
    using na unfolding a_def by (rule hd_dropWhile)
  then have 2: "dropWhile isspace b = b"
    using hd by (simp add: dropWhile_fix)
  have "strip b = b"
    by (simp add: strip_def 1 2)
  then show ?thesis by (simp add: b_def)
qed

lemma buyer_tokens_stripped: "b \<in> set (buyer_tokens cell) \<Longrightarrow> strip b = b \<and> b \<noteq> []"
  by (auto simp: buyer_tokens_def Let_def strip_strip)

lemma load_data_append: "load_data (xs @ ys) = load_data xs @ load_data ys"
  by (simp add: load_data_def)

lemma load_data_Cons: "load_data (d # ds) = expand d @ load_data ds"
  by (simp add: load_data_def)

lemma load_data_formatted:
  "r \<in> set (load_data sheet) \<Longrightarrow> Formatted_Date r = map_option strftime (Date r)"
  by (auto simp: load_data_def expand_def)

subsection \<open>Columns\<close>

lemma keep_first_subset: "set (keep_first f seen xs) \<subseteq> set xs"
  by (induction xs arbitrary: seen) auto

lemma keep_first_image: "f ` set (keep_first f seen xs) = f ` set xs - set seen"
  by (induction xs arbitrary: seen) auto

lemma keep_first_distinct: "distinct (map f (keep_first f seen xs))"
proof (induction xs arbitrary: seen)
  case Nil
  then show ?case by simp
next
  case (Cons x xs)
  have "f x \<notin> f ` set (keep_first f (f x # seen) xs)"
    by (simp add: keep_first_image)
  with Cons show ?case by simp
qed

lemma keep_first_id:
  "distinct (map f xs) \<Longrightarrow> f ` set xs \<inter> set seen = {} \<Longrightarrow> keep_first f seen xs = xs"
  by (induction xs arbitrary: seen) auto

lemma set_unique: "set (unique col) = set col"
  using keep_first_image [of "\<lambda>x. x" "[]" col] by (simp add: unique_def)

lemma dropna_map_Some:
  "\<forall>x\<in>set xs. f x \<noteq> None \<Longrightarrow> dropna (map f xs) = map (\<lambda>x. the (f x)) xs"
  by (induction xs) auto

lemma set_dropna: "set (dropna cs) = {v. Some v \<in> set cs}"
  by (induction cs rule: dropna.induct) auto

lemma length_dropna: "length (dropna cs) = length (filter (\<lambda>c. c \<noteq> None) cs)"
  by (induction cs rule: dropna.induct) auto

lemma series_min_Some:
  assumes "g \<noteq> []" and "\<forall>x\<in>set g. f x \<noteq> None"
  shows "series_min (map f g) = Some (Min ((\<lambda>x. the (f x)) ` set g))"
proof -
  obtain x xs where g: "g = x # xs" using assms(1) by (cases g) auto
  have "dropna (map f g) = map (\<lambda>x. the (f x)) g"
    using assms(2) by (rule dropna_map_Some)
  then have "series_min (map f g) = Some (fold min (map (\<lambda>x. the (f x)) xs) (the (f x)))"
    by (simp add: series_min_def g)
  also have "fold min (map (\<lambda>x. the (f x)) xs) (the (f x)) = Min (set (map (\<lambda>x. the (f x)) g))"
    unfolding g list.map by (rule Min.set_eq_fold [symmetric])
  finally show ?thesis by simp
qed

lemma series_max_Some:
  assumes "g \<noteq> []" and "\<forall>x\<in>set g. f x \<noteq> None"
  shows "series_max (map f g) = Some (Max ((\<lambda>x. the (f x)) ` set g))"
proof -
  obtain x xs where g: "g = x # xs" using assms(1) by (cases g) auto
  have "dropna (map f g) = map (\<lambda>x. the (f x)) g"
    using assms(2) by (rule dropna_map_Some)
  then have "series_max (map f g) = Some (fold max (map (\<lambda>x. the (f x)) xs) (the (f x)))"
    by (simp add: series_max_def g)
  also have "fold max (map (\<lambda>x. the (f x)) xs) (the (f x)) = Max (set (map (\<lambda>x. the (f x)) g))"
    unfolding g list.map by (rule Max.set_eq_fold [symmetric])
  finally show ?thesis by simp
qed

lemma eq_na_None [simp]: "eq_na c None = False"
  by (cases c) (simp_all add: eq_na_def)

lemma eq_na_Some [simp]: "eq_na c (Some b) \<longleftrightarrow> c = Some b"
  by (cases c) (auto simp: eq_na_def)

subsection \<open>The filter\<close>

lemma filtered_complete:
  "\<forall>r\<in>set (filtered_df df f t v). Date r \<noteq> None \<and> Deal_Value r \<noteq> None"
  by (auto simp: filtered_df_def ge_na_def split: option.splits)

text \<open>What the filter compares: a row is in the filtered frame exactly when it is in the
  frame, its timestamp is not missing and lies between midnight of \<open>from_date\<close> and
  midnight of \<open>to_date\<close>, both included, and its deal value is not missing and is at least
  the minimum.\<close>

lemma filtered_df_timestamps:
  "r \<in> set (filtered_df df from_date to_date deal_value) \<longleftrightarrow>
     r \<in> set df \<and>
     (\<exists>d. Date r = Some d \<and> to_datetime from_date \<le> d \<and> d \<le> to_datetime to_date) \<and>
     (\<exists>v. Deal_Value r = Some v \<and> deal_value \<le> v)"
  by (auto simp: filtered_df_def ge_na_def le_na_def split: option.splits)

subsection \<open>The summary sheet\<close>

lemma collect_map_Inr:
  "\<forall>k\<in>set ks. F k = Inr (G k) \<Longrightarrow> collect (map F ks) = Inr (map G ks)"
  by (induction ks) auto

lemma filter_map_key:
  assumes "distinct ks" and "b \<in> set ks" and "\<And>k. key (G k) = k"
  shows "filter (\<lambda>s. key s = b) (map G ks) = [G b]"
  using assms(1,2)
proof (induction ks)
  case Nil
  then show ?case by simp
next
  case (Cons k ks)
  show ?case
  proof (cases "k = b")
    case True
    then have "b \<notin> set ks" using Cons.prems by simp
    then have "filter (\<lambda>s. key s = b) (map G ks) = []"
      by (auto simp: filter_empty_conv assms(3))
    then show ?thesis using True by (simp add: assms(3))
  next
    case False
    then show ?thesis using Cons by (simp add: assms(3))
  qed
qed

lemma set_group_keys: "set (group_keys data) = {b. Some b \<in> Buyer_List ` set data}"
  by (simp add: group_keys_def set_dropna)

lemma distinct_group_keys: "distinct (group_keys data)"
  by (simp add: group_keys_def)

lemma agg_complete:
  assumes "g \<noteq> []" and "\<forall>r\<in>set g. Date r \<noteq> None" and "\<forall>r\<in>set g. Deal_Value r \<noteq> None"
  shows "agg b g =
     Inr \<lparr> Buyer = b,
       Number_of_Deals = length (filter (\<lambda>r. Target_Company_Name r \<noteq> None) g),
       First_Deal_Date = strftime (Min ((\<lambda>r. the (Date r)) ` set g)),
       Last_Deal_Date = strftime (Max ((\<lambda>r. the (Date r)) ` set g)),
       Min_Deal_Value = Some (round2 (Min ((\<lambda>r. the (Deal_Value r)) ` set g))),
       Max_Deal_Value = Some (round2 (Max ((\<lambda>r. the (Deal_Value r)) ` set g))) \<rparr>"
  by (simp add: agg_def series_min_Some [OF assms(1,2)] series_max_Some [OF assms(1,2)]
      series_min_Some [OF assms(1,3)] series_max_Some [OF assms(1,3)]
      series_count_def length_dropna filter_map o_def)

lemma summary_complete:
  assumes "\<forall>r\<in>set data. Date r \<noteq> None \<and> Deal_Value r \<noteq> None"
  shows "summary data = Inr (map (expected_summary_row data) (group_keys data))"
proof -
  have "agg b (group_of data b) = Inr (expected_summary_row data b)"
    if "b \<in> set (group_keys data)" for b
  proof -
    from that obtain r where "r \<in> set data" "Buyer_List r = Some b"
      by (auto simp: set_group_keys)
    then have "r \<in> set (group_of data b)" by (simp add: group_of_def)
    then have ne: "group_of data b \<noteq> []" by auto
    have "\<forall>r\<in>set (group_of data b). Date r \<noteq> None"
      and "\<forall>r\<in>set (group_of data b). Deal_Value r \<noteq> None"
      using assms by (simp_all add: group_of_def)
    with ne show ?thesis
      unfolding expected_summary_row_def by (rule agg_complete)
  qed
  then have "collect (map (\<lambda>b. agg b (group_of data b)) (group_keys data)) =
             Inr (map (expected_summary_row data) (group_keys data))"
    by (intro collect_map_Inr) simp
  then show ?thesis by (simp add: summary_def group_of_def)
qed

subsection \<open>Evaluating the loader and the filter on the sample data\<close>

lemmas loader_defs = load_data_def expand_def explode_def buyer_tokens_def strip_def isspace_def
  strftime_def pad2_def digit_def

lemmas filter_defs = filtered_df_def ge_na_def le_na_def to_datetime_def

lemma tokens_twice: "buyer_tokens (Buyer_s deal_twice) = [''Alpha'', ''Alpha'']"
  by (simp add: deal_twice_def buyer_tokens_def strip_def isspace_def)

lemma tokens_commas: "buyer_tokens (Buyer_s deal_commas) = []"
  by (simp add: deal_commas_def buyer_tokens_def strip_def isspace_def)

lemma tokens_blank: "buyer_tokens (Buyer_s deal_blank) = []"
  by (simp add: deal_blank_def buyer_tokens_def strip_def isspace_def)

lemma load_twice: "load_data [deal_twice] = [row_twice, row_twice]"
  by (simp add: deal_twice_def row_twice_def loader_defs)

lemma load_commas: "load_data [deal_commas] = [row_commas]"
  by (simp add: deal_commas_def row_commas_def loader_defs)

lemma load_blank: "load_data [deal_blank] = [row_blank]"
  by (simp add: deal_blank_def row_blank_def loader_defs)

lemma filtered_twice:
  "filtered_df [row_twice, row_twice] (2021, 1, 1) (2021, 12, 31) 0 = [row_twice, row_twice]"
  by (simp add: row_twice_def filter_defs)

lemma defaults_late:
  "min_date rows_late = Some (2021, 3, 6) \<and> max_date rows_late = Some (2021, 3, 9) \<and>
   min_val rows_late = Some 5"
  by (simp add: rows_late_def sample_def min_date_def max_date_def min_val_def
      series_min_def series_max_def date_of_def)

lemma filtered_late:
  "filtered_df rows_late (2021, 3, 6) (2021, 3, 9) 5 = [sample ''Alpha'' ''T1'' (2021, 3, 6, 0) 5]"
  by (simp add: rows_late_def sample_def filter_defs)

text \<open>With the bounds 7 and 9 March 2021, the rows stamped midnight of the bounds are in
  the filtered frame, the rows one day before and one day after are not.\<close>

lemma filtered_bounds:
  "sample ''Alpha'' ''T2'' (2021, 3, 7, 0) 5 \<in> set (filtered_df rows_bounds (2021, 3, 7) (2021, 3, 9) 5) \<and>
   sample ''Alpha'' ''T3'' (2021, 3, 9, 0) 5 \<in> set (filtered_df rows_bounds (2021, 3, 7) (2021, 3, 9) 5) \<and>
   sample ''Alpha'' ''T1'' (2021, 3, 6, 0) 5 \<notin> set (filtered_df rows_bounds (2021, 3, 7) (2021, 3, 9) 5) \<and>
   sample ''Alpha'' ''T4'' (2021, 3, 10, 0) 5 \<notin> set (filtered_df rows_bounds (2021, 3, 7) (2021, 3, 9) 5)"
  by (simp add: rows_bounds_def sample_def filter_defs)

section \<open>The claims about the loader\<close>

text \<open>
  C2, as the code has it. A row of the sheet whose buyer cell splits into no token is not
  dropped: \<open>explode\<close> keeps it, so the frame that \<open>load_data\<close> returns holds exactly one
  row for it, at its place, with the cells of the sheet unchanged and with a missing
  buyer. No row that names a buyer comes from it.
\<close>

theorem load_data_keeps_row_without_buyer:
  assumes "buyer_tokens (Buyer_s d) = []"
  shows "load_data (before @ d # after) =
           load_data before @
           [\<lparr> Target_Company_Name = Target_Company_Name d,
              Date = Date d,
              Deal_Value = Deal_Value d,
              Deal_Type = Deal_Type d,
              Buyer_s = Buyer_s d,
              Buyer_List = None,
              Formatted_Date = map_option strftime (Date d) \<rparr>] @
           load_data after"
proof -
  have "expand d =
          [\<lparr> Target_Company_Name = Target_Company_Name d, Date = Date d,
             Deal_Value = Deal_Value d, Deal_Type = Deal_Type d, Buyer_s = Buyer_s d,
             Buyer_List = None, Formatted_Date = map_option strftime (Date d) \<rparr>]"
    using assms by (simp add: expand_def explode_def)
  then show ?thesis
    by (simp add: load_data_append load_data_Cons)
qed

text \<open>The theorem on a sheet whose second deal has an empty buyer cell.\<close>

theorem load_data_keeps_row_without_buyer_witness:
  "buyer_tokens (Buyer_s deal_blank) = [] \<and>
   load_data [deal_twice, deal_blank] = [row_twice, row_twice, row_blank]"
  using load_data_keeps_row_without_buyer [of deal_blank "[deal_twice]" "[]"]
  by (simp add: tokens_blank load_twice) (simp add: deal_blank_def row_blank_def loader_defs)

text \<open>C2 as it is written fails: the deal whose buyer cell is a comma between blanks has
  no token, and the loader returns a row for it.\<close>

theorem load_data_drops_row_counterexample:
  "buyer_tokens (Buyer_s deal_commas) = [] \<and> load_data [deal_commas] = [row_commas]"
  by (simp add: tokens_commas load_commas)

text \<open>
  C6, as the code has it. The tokens are not made distinct, and a cell without tokens
  still gives a row. When the buyer cell of a deal splits into the tokens \<open>ts\<close>, and there
  is at least one, the loader returns one row for each token, repeated tokens included, in
  the order of the tokens and at the place of the deal; each row has the cells of the
  sheet unchanged, the same formatted date, and the token as its buyer.
\<close>

theorem load_data_one_row_per_token:
  assumes "buyer_tokens (Buyer_s d) = ts" and "ts \<noteq> []"
  shows "load_data (before @ d # after) =
           load_data before @
           map (\<lambda>b. \<lparr> Target_Company_Name = Target_Company_Name d,
                      Date = Date d,
                      Deal_Value = Deal_Value d,
                      Deal_Type = Deal_Type d,
                      Buyer_s = Buyer_s d,
                      Buyer_List = Some b,
                      Formatted_Date = map_option strftime (Date d) \<rparr>) ts @
           load_data after"
proof -
  have "strip b = b" if "b \<in> set ts" for b
    using that assms(1) buyer_tokens_stripped by blast
  then have "expand d =
          map (\<lambda>b. \<lparr> Target_Company_Name = Target_Company_Name d, Date = Date d,
                     Deal_Value = Deal_Value d, Deal_Type = Deal_Type d, Buyer_s = Buyer_s d,
                     Buyer_List = Some b, Formatted_Date = map_option strftime (Date d) \<rparr>) ts"
    using assms by (simp add: expand_def explode_def)
  then show ?thesis
    by (simp add: load_data_append load_data_Cons)
qed

text \<open>The theorem on the deal that names one buyer twice: two rows.\<close>

theorem load_data_one_row_per_token_witness:
  "buyer_tokens (Buyer_s deal_twice) = [''Alpha'', ''Alpha''] \<and>
   load_data [deal_twice] = [row_twice, row_twice]"
  using load_data_one_row_per_token [of deal_twice "[''Alpha'', ''Alpha'']" "[]" "[]"]
  by (simp add: tokens_twice) (simp add: deal_twice_def row_twice_def loader_defs)

text \<open>C6 as it is written fails twice: one distinct token and two rows, no token and one
  row.\<close>

theorem load_data_distinct_tokens_counterexample:
  "length (remdups (buyer_tokens (Buyer_s deal_twice))) = 1 \<and>
   length (load_data [deal_twice]) = 2 \<and>
   length (remdups (buyer_tokens (Buyer_s deal_blank))) = 0 \<and>
   length (load_data [deal_blank]) = 1"
  by (simp add: tokens_twice tokens_blank load_twice load_blank)

section \<open>The claims about the filter\<close>

text \<open>
  C4. The claim asks that a deal dated on \<open>to_date\<close> be in the filtered set. Line 40
  compares the timestamp of the row with midnight of \<open>to_date\<close>, so a deal of that day
  with a time of day is left out: the row stamped ten o'clock on 9 March 2021, which the
  script shows as 09-03-2021, is not in the frame filtered up to 9 March. The script
  itself offers the day of the latest deal as \<open>to_date\<close> (lines 26 and 28); with the
  bounds and the minimum it offers at first, the filter leaves out the latest deal of the
  frame.
\<close>

theorem filter_excludes_deal_on_to_date:
  "sample ''Alpha'' ''T5'' (2021, 3, 9, 36000000000000) 5 \<in> set rows_bounds \<and>
   Date (sample ''Alpha'' ''T5'' (2021, 3, 9, 36000000000000) 5) =
     Some (2021, 3, 9, 36000000000000) \<and>
   date_of (2021, 3, 9, 36000000000000) = (2021, 3, 9) \<and>
   Formatted_Date (sample ''Alpha'' ''T5'' (2021, 3, 9, 36000000000000) 5) = Some ''09-03-2021'' \<and>
   Deal_Value (sample ''Alpha'' ''T5'' (2021, 3, 9, 36000000000000) 5) = Some 5 \<and>
   sample ''Alpha'' ''T5'' (2021, 3, 9, 36000000000000) 5 \<notin>
     set (filtered_df rows_bounds (2021, 3, 7) (2021, 3, 9) 5) \<and>
   min_date rows_late = Some (2021, 3, 6) \<and>
   max_date rows_late = Some (2021, 3, 9) \<and>
   min_val rows_late = Some 5 \<and>
   filtered_df rows_late (2021, 3, 6) (2021, 3, 9) 5 = [sample ''Alpha'' ''T1'' (2021, 3, 6, 0) 5]"
  using defaults_late filtered_late
  by (simp add: rows_bounds_def sample_def filter_defs date_of_def strftime_def pad2_def digit_def)

text \<open>
  C10. Filtering the filtered frame again with the same criteria gives the same frame, row
  for row; the filtered frame is the frame with rows left out, the others in their
  order; and the filter statement assigns the filtered frame only, so the loaded frame is
  what it was, and running it twice is running it once.
\<close>

theorem filter_idempotent_order_preserving:
  "filtered_df (filtered_df df from_date to_date deal_value) from_date to_date deal_value =
     filtered_df df from_date to_date deal_value \<and>
   subseq (filtered_df df from_date to_date deal_value) df \<and>
   g_df (filter_stmt from_date to_date deal_value g) = g_df g \<and>
   filter_stmt from_date to_date deal_value (filter_stmt from_date to_date deal_value g) =
     filter_stmt from_date to_date deal_value g"
  by (simp add: filtered_df_def filter_stmt_def)

text \<open>On the five sample rows the filter keeps the second and the third, and keeps them
  when it runs again.\<close>

theorem filter_idempotent_order_preserving_witness:
  "filtered_df rows_bounds (2021, 3, 7) (2021, 3, 9) 5 =
     [sample ''Alpha'' ''T2'' (2021, 3, 7, 0) 5, sample ''Alpha'' ''T3'' (2021, 3, 9, 0) 5] \<and>
   filtered_df (filtered_df rows_bounds (2021, 3, 7) (2021, 3, 9) 5) (2021, 3, 7) (2021, 3, 9) 5 =
     [sample ''Alpha'' ''T2'' (2021, 3, 7, 0) 5, sample ''Alpha'' ''T3'' (2021, 3, 9, 0) 5]"
proof -
  have "filtered_df rows_bounds (2021, 3, 7) (2021, 3, 9) 5 =
     [sample ''Alpha'' ''T2'' (2021, 3, 7, 0) 5, sample ''Alpha'' ''T3'' (2021, 3, 9, 0) 5]"
    by (simp add: rows_bounds_def sample_def filter_defs)
  then show ?thesis
    using filter_idempotent_order_preserving [of rows_bounds "(2021, 3, 7)" "(2021, 3, 9)" 5]
    by simp
qed

section \<open>Properties of the report builder\<close>

subsection \<open>The details sheet\<close>

lemma drop_duplicates_subset: "set (drop_duplicates data) \<subseteq> set data"
  by (simp add: drop_duplicates_def keep_first_subset)

lemma drop_duplicates_buyers: "Buyer_List ` set (drop_duplicates data) = Buyer_List ` set data"
proof
  show "Buyer_List ` set (drop_duplicates data) \<subseteq> Buyer_List ` set data"
    using drop_duplicates_subset by blast
next
  let ?k = "\<lambda>r. (Buyer_List r, Target_Company_Name r, Date r, Deal_Value r)"
  have "?k ` set (drop_duplicates data) = ?k ` set data"
    using keep_first_image [of ?k "[]" data] by (simp add: drop_duplicates_def)
  then have "fst ` ?k ` set data = fst ` ?k ` set (drop_duplicates data)" by simp
  then show "Buyer_List ` set data \<subseteq> Buyer_List ` set (drop_duplicates data)"
    by (simp add: image_image)
qed

lemma drop_duplicates_idem: "drop_duplicates (drop_duplicates data) = drop_duplicates data"
  unfolding drop_duplicates_def
  by (rule keep_first_id) (simp_all add: keep_first_distinct)

lemma buyer_df_None: "buyer_df data None = []"
  by (simp add: buyer_df_def sort_values_Date_def)

lemma sorted_buyer_df: "sorted (map date_sort_key (buyer_df data b))"
  by (simp add: buyer_df_def sort_values_Date_def)

lemma set_buyer_df: "set (buyer_df data b) \<subseteq> set data"
  by (auto simp: buyer_df_def sort_values_Date_def)

lemma sorted_dates:
  assumes "sorted (map date_sort_key rows)" and "\<forall>r\<in>set rows. Date r \<noteq> None"
  shows "sorted (map (\<lambda>r. the (Date r)) rows)"
proof -
  have "date_sort_key r = (0, the (Date r))" if "r \<in> set rows" for r
    using that assms(2) by (auto simp: date_sort_key_def)
  then have eq: "map date_sort_key rows = map (\<lambda>r. (0, the (Date r))) rows"
    by simp
  have "sorted (map (\<lambda>r. (0::nat, the (Date r))) rows)"
    using assms(1) unfolding eq .
  then show ?thesis
    by (simp add: sorted_map sorted_wrt_iff_nth_less)
qed

lemma frame_width_Max: "frame_width d = Max (insert 0 ((\<lambda>kv. length (snd kv)) ` set d))"
proof -
  have "fold max (map (\<lambda>kv. length (snd kv)) d) 0 =
        Max (set (0 # map (\<lambda>kv. length (snd kv)) d))"
    by (rule Max.set_eq_fold [symmetric])
  then show ?thesis by (simp add: frame_width_def)
qed

lemma length_deal_info: "length (deal_info rows) = 3 * length rows"
  by (induction rows) (auto simp: deal_info_def triple_def)

lemma length_col_headers: "length (col_headers n) = 1 + 3 * n"
proof -
  have "length (concat (map (\<lambda>i. [f i, g i, h i]) xs)) = 3 * length xs"
    for f g h :: "nat \<Rightarrow> string" and xs
    by (induction xs) auto
  then show ?thesis by (simp add: col_headers_def)
qed

lemma deal_count_le_max: "deal_count data0 b \<le> max_deals data0"
proof (cases b)
  case None
  then show ?thesis by (simp add: deal_count_def buyer_df_None)
next
  case (Some x)
  show ?thesis
  proof (cases "x \<in> set (dropna (map Buyer_List data0))")
    case True
    then show ?thesis unfolding max_deals_def Some by (intro Max_ge) auto
  next
    case False
    then have "\<forall>r\<in>set (drop_duplicates data0). Buyer_List r \<noteq> Some x"
      using drop_duplicates_subset [of data0] by (force simp: set_dropna)
    then have "filter (\<lambda>r. Buyer_List r = Some x) (drop_duplicates data0) = []"
      by (simp add: filter_empty_conv)
    then show ?thesis by (simp add: deal_count_def buyer_df_def Some sort_values_Date_def)
  qed
qed

lemma frame_width_deal_dict:
  "frame_width (deal_dict (drop_duplicates data0)) = 3 * max_deals data0"
proof -
  let ?data = "drop_duplicates data0"
  let ?c = "deal_count data0"
  have "(\<lambda>kv. length (snd kv)) ` set (deal_dict ?data) =
          (\<lambda>b. 3 * ?c b) ` Buyer_List ` set ?data"
    by (simp add: deal_dict_def set_unique image_image length_deal_info deal_count_def)
  then have "(\<lambda>kv. length (snd kv)) ` set (deal_dict ?data) =
          (\<lambda>b. 3 * ?c b) ` Buyer_List ` set data0"
    by (simp only: drop_duplicates_buyers)
  then have "frame_width (deal_dict ?data) =
          Max (insert 0 ((\<lambda>b. 3 * ?c b) ` Buyer_List ` set data0))"
    by (simp add: frame_width_Max)
  also have "insert 0 ((\<lambda>b. 3 * ?c b) ` Buyer_List ` set data0) =
       (\<lambda>n. 3 * n) ` insert 0 ((\<lambda>b. ?c (Some b)) ` set (dropna (map Buyer_List data0)))"
    (is "?L = ?R")
  proof
    show "?L \<subseteq> ?R"
    proof
      fix n assume "n \<in> ?L"
      then consider "n = 0" | r where "r \<in> set data0" "n = 3 * ?c (Buyer_List r)" by auto
      then show "n \<in> ?R"
      proof cases
        case 1 then show ?thesis by simp
      next
        case 2
        show ?thesis
        proof (cases "Buyer_List r")
          case None
          then show ?thesis using 2 by (simp add: deal_count_def buyer_df_None)
        next
          case (Some b)
          then have "b \<in> set (dropna (map Buyer_List data0))"
            using 2(1) by (force simp: set_dropna)
          then show ?thesis using 2(2) Some by auto
        qed
      qed
    qed
    show "?R \<subseteq> ?L"
    proof
      fix n assume "n \<in> ?R"
      then consider "n = 0"
        | b where "Some b \<in> set (map Buyer_List data0)" "n = 3 * ?c (Some b)"
        by (auto simp: set_dropna)
      then show "n \<in> ?L"
      proof cases
        case 1 then show ?thesis by simp
      next
        case 2
        then obtain r where "r \<in> set data0" "Buyer_List r = Some b" by auto
        then have "3 * ?c (Some b) \<in> (\<lambda>b. 3 * ?c b) ` Buyer_List ` set data0"
          by (metis imageI)
        then show ?thesis using 2(2) by simp
      qed
    qed
  qed
  also have "Max (\<dots>) =
       3 * Max (insert 0 ((\<lambda>b. ?c (Some b)) ` set (dropna (map Buyer_List data0))))"
    by (rule mono_Max_commute [symmetric]) (auto simp: mono_def)
  finally show ?thesis by (simp add: max_deals_def)
qed

lemma deals_df_complete:
  "deals_df (drop_duplicates data0) =
     Inr \<lparr> columns = col_headers (max_deals data0),
           body = map (\<lambda>b. text_cell b # deal_info (buyer_df (drop_duplicates data0) b) @
                            replicate (3 * (max_deals data0 - deal_count data0 b)) NA)
                      (unique (map Buyer_List (drop_duplicates data0))) \<rparr>"
proof -
  have "reset_index (from_dict_index (deal_dict (drop_duplicates data0))) =
        map (\<lambda>b. text_cell b # deal_info (buyer_df (drop_duplicates data0) b) @
                            replicate (3 * (max_deals data0 - deal_count data0 b)) NA)
                      (unique (map Buyer_List (drop_duplicates data0)))"
    unfolding reset_index_def from_dict_index_def frame_width_deal_dict
    by (simp add: deal_dict_def length_deal_info deal_count_def diff_mult_distrib2 o_def)
  then show ?thesis
    by (simp add: deals_df_def Let_def frame_width_deal_dict length_col_headers)
qed

text \<open>The details sheet does not change when the duplicates are removed beforehand.\<close>

lemma deals_df_without_duplicates:
  "deals_df (drop_duplicates (drop_duplicates data0)) = deals_df (drop_duplicates data0)"
  by (simp add: drop_duplicates_idem)

subsection \<open>The workbook of a frame in which no date and no value is missing\<close>

lemma prepare_complete:
  assumes "\<forall>r\<in>set data. Date r \<noteq> None \<and> Deal_Value r \<noteq> None"
  shows "prepare_excel_summary data =
     Inr \<lparr> Buyer_Summary = map (expected_summary_row data) (group_keys data),
           Buyer_Deal_Details =
             \<lparr> columns = col_headers (max_deals data),
               body = map (\<lambda>b. text_cell b # deal_info (buyer_df (drop_duplicates data) b) @
                            replicate (3 * (max_deals data - deal_count data b)) NA)
                      (unique (map Buyer_List (drop_duplicates data))) \<rparr>,
           Details_Fill = fills (1 + 3 * max_deals data) \<rparr>"
  by (simp add: prepare_excel_summary_def summary_complete [OF assms] deals_df_complete
      length_col_headers)

subsection \<open>The fills\<close>

lemma fill_color_slot:
  "fill_color (int (1 + 3 * j)) = drop 1 (light_colors ! ((3 * j + 1) mod 4))"
proof -
  have "(int (1 + 3 * j) - 1 div 3) mod 4 = int ((3 * j + 1) mod 4)"
    by (simp add: zmod_int add.commute)
  then have "nat ((int (1 + 3 * j) - 1 div 3) mod 4) = (3 * j + 1) mod 4"
    by (simp only: nat_int)
  moreover have "length light_colors = 4" by (simp add: light_colors_def)
  ultimately show ?thesis by (simp add: fill_color_def add.commute)
qed

text \<open>What the styling pass does for every group: the group at slot \<open>j\<close>, counted from 0,
  is filled with the colour of index \<open>(3 * j + 1) mod 4\<close>.\<close>

lemma fills_slots:
  "fills (1 + 3 * m) =
     map (\<lambda>j. ([3 * j + 2, 3 * j + 3, 3 * j + 4], drop 1 (light_colors ! ((3 * j + 1) mod 4))))
         [0 ..< m]"
proof -
  have "(3 * m - 1 + 3 - 1) div 3 = m"
    by (cases m) simp_all
  then have "py_range 1 (3 * m) 3 = map (\<lambda>k. 1 + 3 * k) [0 ..< m]"
    unfolding py_range_def by simp
  then show ?thesis
    using fill_color_slot by (simp add: fills_def o_def)
qed

subsection \<open>The dates that the details sheet shows\<close>

lemma digit_value_digit: "digit_value (digit n) = n mod 10"
proof -
  have "\<forall>k\<in>set [0..<10]. digit_value (''0123456789'' ! k) = k"
    by (simp add: upt_conv_Cons digit_value_def)
  moreover have "n mod 10 \<in> set [0..<10]" by simp
  ultimately show ?thesis unfolding digit_def by blast
qed

lemma two_digits: "n < 100 \<Longrightarrow> 10 * (n div 10 mod 10) + n mod 10 = (n::nat)"
proof -
  assume "n < 100"
  then have "n div 10 < 10" by simp
  then have "n div 10 mod 10 = n div 10" by simp
  then show ?thesis by simp
qed

lemma four_digits:
  assumes "y < 10000"
  shows "1000 * (y div 100 div 10 mod 10) + 100 * (y div 100 mod 10) + 10 * (y div 10 mod 10) +
         y mod 10 = (y::nat)"
proof -
  have a: "y div 100 < 100" using assms by simp
  have "10 * (y div 100 div 10 mod 10) + y div 100 mod 10 = y div 100"
    using a by (rule two_digits)
  then have hi: "1000 * (y div 100 div 10 mod 10) + 100 * (y div 100 mod 10) = 100 * (y div 100)"
    by linarith
  have lo: "y mod 100 = 10 * (y div 10 mod 10) + y mod 10"
    using mod_mult2_eq [of y 10 10] by simp
  have "y = 100 * (y div 100) + y mod 100" by simp
  then show ?thesis using hi lo by linarith
qed

lemma date_shown_strftime:
  assumes "valid_timestamp t"
  shows "date_shown (Text (strftime t)) = Some (date_of t)"
proof -
  obtain y m d ns where t: "t = (y, m, d, ns)" by (cases t) auto
  have "y < 10000" and "m < 100" and "d < 100"
    using assms by (auto simp: t valid_timestamp_def)
  then have "1000 * (y div 100 div 10 mod 10) + 100 * (y div 100 mod 10) + 10 * (y div 10 mod 10) +
         y mod 10 = y"
    and "10 * (m div 10 mod 10) + m mod 10 = m"
    and "10 * (d div 10 mod 10) + d mod 10 = d"
    by (simp_all only: four_digits two_digits)
  then show ?thesis
    by (simp add: t date_shown_def strftime_def pad2_def digit_value_digit date_of_def)
qed

lemma date_of_mono: "t \<le> t' \<Longrightarrow> date_of t \<le> date_of t'"
  by (cases t; cases t') (auto simp: date_of_def)

lemma load_data_dates:
  "r \<in> set (load_data sheet) \<Longrightarrow> \<exists>d\<in>set sheet. Date r = Date d"
  by (auto simp: load_data_def expand_def)

lemma mset_buyer_df:
  "mset (buyer_df data b) = mset (filter (\<lambda>r. eq_na (Buyer_List r) b) data)"
  by (simp add: buyer_df_def sort_values_Date_def)

lemma deal_info_nth_date:
  "j < length rows \<Longrightarrow> deal_info rows ! (3 * j) = text_cell (Formatted_Date (rows ! j))"
proof (induction rows arbitrary: j)
  case Nil
  then show ?case by simp
next
  case (Cons r rows)
  show ?case
  proof (cases j)
    case 0
    then show ?thesis by (simp add: deal_info_def triple_def)
  next
    case (Suc i)
    then have "i < length rows" using Cons.prems by simp
    then have "deal_info rows ! (3 * i) = text_cell (Formatted_Date (rows ! i))"
      by (rule Cons.IH)
    moreover have "3 * j = Suc (Suc (Suc (3 * i)))" using Suc by simp
    ultimately show ?thesis using Suc by (simp add: deal_info_def triple_def)
  qed
qed

lemma details_row_nth_date:
  assumes "j < length rows"
  shows "(c # deal_info rows @ pad) ! (1 + 3 * j) = text_cell (Formatted_Date (rows ! j))"
proof -
  have "3 * j < length (deal_info rows)"
    using assms by (simp add: length_deal_info)
  then show ?thesis
    using deal_info_nth_date [OF assms] by (simp add: nth_append)
qed

subsection \<open>Evaluating the report builder on the sample data\<close>

lemmas report_defs = prepare_excel_summary_def summary_def group_keys_def agg_def
  series_min_def series_max_def series_count_def round2_def rint_def Let_def
  drop_duplicates_def deals_df_def deal_dict_def unique_def buyer_df_def sort_values_Date_def
  deal_info_def triple_def frame_width_def col_headers_def from_dict_index_def reset_index_def
  text_cell_def number_cell_def fills_def py_range_def fill_color_def light_colors_def
  date_sort_key_def str_nat.simps digit_def strftime_def pad2_def upt_conv_Cons

lemma prepare_twice:
  "prepare_excel_summary [row_twice, row_twice] =
     Inr \<lparr> Buyer_Summary =
             [\<lparr> Buyer = ''Alpha'', Number_of_Deals = 2,
                First_Deal_Date = ''07-03-2021'', Last_Deal_Date = ''07-03-2021'',
                Min_Deal_Value = Some 5, Max_Deal_Value = Some 5 \<rparr>],
           Buyer_Deal_Details =
             \<lparr> columns = [''Buyer Name'', ''Date 1'', ''Deal 1'', ''Deal Value 1 (in Mn USD)''],
               body = [[Text ''Alpha'', Text ''07-03-2021'', Text ''Acme'', Number 5]] \<rparr>,
           Details_Fill = [([2, 3, 4], ''e6f7ff'')] \<rparr>"
  by (simp add: row_twice_def report_defs)

lemma prepare_once:
  "prepare_excel_summary [row_twice] =
     Inr \<lparr> Buyer_Summary =
             [\<lparr> Buyer = ''Alpha'', Number_of_Deals = 1,
                First_Deal_Date = ''07-03-2021'', Last_Deal_Date = ''07-03-2021'',
                Min_Deal_Value = Some 5, Max_Deal_Value = Some 5 \<rparr>],
           Buyer_Deal_Details =
             \<lparr> columns = [''Buyer Name'', ''Date 1'', ''Deal 1'', ''Deal Value 1 (in Mn USD)''],
               body = [[Text ''Alpha'', Text ''07-03-2021'', Text ''Acme'', Number 5]] \<rparr>,
           Details_Fill = [([2, 3, 4], ''e6f7ff'')] \<rparr>"
  by (simp add: row_twice_def report_defs)

lemma drop_duplicates_twice: "drop_duplicates [row_twice, row_twice] = [row_twice]"
  by (simp add: drop_duplicates_def)

lemma render_twice:
  "render_buyer [row_twice, row_twice] ''Alpha'' =
     Inr (Some \<lparr> Total_Deals = 1,
                 First_Investment = ''07-03-2021'', Most_Recent_Investment = ''07-03-2021'',
                 Min_Deal_Value_shown = Some 5, Max_Deal_Value_shown = Some 5 \<rparr>)"
  by (simp add: row_twice_def render_buyer_def shown_buyer_df_def report_defs)

lemma unique_buyers_twice: "unique_buyers [row_twice, row_twice] = [''Alpha'']"
  by (simp add: row_twice_def unique_buyers_def unique_def)

lemma filtered_unnamed:
  "filtered_df [row_unnamed] (2021, 1, 1) (2021, 12, 31) 0 = [row_unnamed]"
  by (simp add: row_unnamed_def filter_defs)

lemma filtered_135: "filtered_df rows_135 (2021, 1, 1) (2021, 12, 31) 10 = rows_135"
  by (simp add: rows_135_def sample_def filter_defs)

lemma drop_duplicates_135: "drop_duplicates rows_135 = rows_135"
  by (simp add: rows_135_def sample_def drop_duplicates_def)

lemma max_deals_135: "max_deals rows_135 = 5"
  unfolding max_deals_def deal_count_def drop_duplicates_135
  by (simp add: rows_135_def sample_def buyer_df_def sort_values_Date_def)

lemma filtered_abc: "filtered_df rows_abc (2021, 1, 1) (2021, 12, 31) 1 = rows_abc"
  by (simp add: rows_abc_def sample_def filter_defs)

lemma load_two:
  "load_data sheet_two =
     [sample ''Alpha'' ''T2'' (2021, 2, 5, 0) 7, sample ''Alpha'' ''T1'' (2021, 1, 5, 0) 3]"
  by (simp add: sheet_two_def sample_deal_def sample_def loader_defs)

lemma filtered_two:
  "filtered_df (load_data sheet_two) (2021, 1, 1) (2021, 12, 31) 1 =
     [sample ''Alpha'' ''T2'' (2021, 2, 5, 0) 7, sample ''Alpha'' ''T1'' (2021, 1, 5, 0) 3]"
  unfolding load_two by (simp add: sample_def filter_defs)

lemma prepare_two:
  "prepare_excel_summary (filtered_df (load_data sheet_two) (2021, 1, 1) (2021, 12, 31) 1) =
     Inr workbook_two"
  unfolding filtered_two by (simp add: sample_def workbook_two_def report_defs)

lemma prepare_unnamed:
  "prepare_excel_summary [row_unnamed] =
     Inr \<lparr> Buyer_Summary =
             [\<lparr> Buyer = ''Alpha'', Number_of_Deals = 0,
                First_Deal_Date = ''03-06-2021'', Last_Deal_Date = ''03-06-2021'',
                Min_Deal_Value = Some 9, Max_Deal_Value = Some 9 \<rparr>],
           Buyer_Deal_Details =
             \<lparr> columns = [''Buyer Name'', ''Date 1'', ''Deal 1'', ''Deal Value 1 (in Mn USD)''],
               body = [[Text ''Alpha'', Text ''03-06-2021'', NA, Number 9]] \<rparr>,
           Details_Fill = [([2, 3, 4], ''e6f7ff'')] \<rparr>"
  by (simp add: row_unnamed_def report_defs)

lemma render_unnamed:
  "render_buyer [row_unnamed] ''Alpha'' =
     Inr (Some \<lparr> Total_Deals = 1,
                 First_Investment = ''03-06-2021'', Most_Recent_Investment = ''03-06-2021'',
                 Min_Deal_Value_shown = Some 9, Max_Deal_Value_shown = Some 9 \<rparr>)"
  by (simp add: row_unnamed_def render_buyer_def shown_buyer_df_def report_defs)

lemma unique_buyers_unnamed: "unique_buyers [row_unnamed] = [''Alpha'']"
  by (simp add: row_unnamed_def unique_buyers_def unique_def)

subsection \<open>The panel of a buyer\<close>

lemma group_distinct_triples:
  assumes "distinct (map (\<lambda>r. (Buyer_List r, Target_Company_Name r, Date r, Deal_Value r)) data)"
  shows "distinct (map (\<lambda>r. (Target_Company_Name r, Date r, Deal_Value r)) (group_of data b))"
proof -
  let ?k4 = "\<lambda>r. (Buyer_List r, Target_Company_Name r, Date r, Deal_Value r)"
  let ?k3 = "\<lambda>r. (Target_Company_Name r, Date r, Deal_Value r)"
  have d: "distinct (map ?k4 (group_of data b))"
    unfolding group_of_def using assms by (rule distinct_map_filter)
  have eq: "map ?k4 (group_of data b) = map (\<lambda>r. (Some b, ?k3 r)) (group_of data b)"
    by (simp add: group_of_def)
  have "distinct (map (\<lambda>r. (Some b, ?k3 r)) (group_of data b))"
    using d unfolding eq .
  then have "distinct (map (Pair (Some b)) (map ?k3 (group_of data b)))"
    by (simp add: o_def)
  then show ?thesis
    by (simp only: distinct_map [of "Pair (Some b)"])
qed

lemma shown_buyer_df_without_duplicates:
  assumes "distinct (map (\<lambda>r. (Buyer_List r, Target_Company_Name r, Date r, Deal_Value r)) data)"
  shows "shown_buyer_df data b = sort_values_Date (group_of data b)"
proof -
  have "keep_first (\<lambda>r. (Target_Company_Name r, Date r, Deal_Value r)) [] (group_of data b) =
        group_of data b"
    using group_distinct_triples [OF assms] by (intro keep_first_id) simp_all
  then show ?thesis
    by (simp add: shown_buyer_df_def group_of_def)
qed

text \<open>Where the filtered frame has no exact duplicates and no row without a target company
  name, the panel of a buyer shows what the summary sheet has in the row of the buyer.\<close>

lemma panel_agrees_without_duplicates:
  assumes "data = filtered_df df from_date to_date deal_value"
    and "distinct (map (\<lambda>r. (Buyer_List r, Target_Company_Name r, Date r, Deal_Value r)) data)"
    and "\<forall>r\<in>set data. Target_Company_Name r \<noteq> None"
    and "group_of data b \<noteq> []"
  shows "render_buyer data b =
           Inr (Some \<lparr> Total_Deals = Number_of_Deals (expected_summary_row data b),
                       First_Investment = First_Deal_Date (expected_summary_row data b),
                       Most_Recent_Investment = Last_Deal_Date (expected_summary_row data b),
                       Min_Deal_Value_shown = Min_Deal_Value (expected_summary_row data b),
                       Max_Deal_Value_shown = Max_Deal_Value (expected_summary_row data b) \<rparr>)"
proof -
  let ?g = "group_of data b"
  let ?bdf = "shown_buyer_df data b"
  have bdf: "?bdf = sort_values_Date ?g"
    using assms(2) by (rule shown_buyer_df_without_duplicates)
  then have set: "set ?bdf = set ?g" and len: "length ?bdf = length ?g"
    by (simp_all add: sort_values_Date_def)
  have ne: "?bdf \<noteq> []"
    using assms(4) len by (metis length_0_conv)
  have sub: "set ?g \<subseteq> set data"
    by (auto simp: group_of_def)
  have ok: "\<forall>r\<in>set data. Date r \<noteq> None \<and> Deal_Value r \<noteq> None"
    unfolding assms(1) by (rule filtered_complete)
  have dates: "\<forall>r\<in>set ?bdf. Date r \<noteq> None" and vals: "\<forall>r\<in>set ?bdf. Deal_Value r \<noteq> None"
    using ok sub set by auto
  have names: "filter (\<lambda>r. Target_Company_Name r \<noteq> None) ?g = ?g"
    using assms(3) sub by (auto simp: filter_id_conv)
  then have "length (filter (\<lambda>r. Target_Company_Name r \<noteq> None) ?g) = length ?g"
    by simp
  then show ?thesis
    by (simp add: render_buyer_def Let_def ne series_min_Some [OF ne dates]
        series_max_Some [OF ne dates] series_min_Some [OF ne vals] series_max_Some [OF ne vals]
        set len expected_summary_row_def)
qed

subsection \<open>The row of a buyer in the summary sheet\<close>

text \<open>For a filtered frame and a buyer with at least one row in it, the report builder
  returns a workbook, and the summary sheet has exactly one row for the buyer: the number
  of the buyer's rows that have a target company name, the earliest and the latest date as
  day-month-year, and the least and the greatest deal value rounded to two decimal
  places.\<close>

lemma summary_row_computed:
  assumes "data = filtered_df df from_date to_date deal_value"
    and "g = filter (\<lambda>r. Buyer_List r = Some b) data"
    and "g \<noteq> []"
  shows "\<exists>wb. prepare_excel_summary data = Inr wb \<and>
           filter (\<lambda>s. Buyer s = b) (Buyer_Summary wb) =
             [\<lparr> Buyer = b,
                Number_of_Deals = length (filter (\<lambda>r. Target_Company_Name r \<noteq> None) g),
                First_Deal_Date = strftime (Min ((\<lambda>r. the (Date r)) ` set g)),
                Last_Deal_Date = strftime (Max ((\<lambda>r. the (Date r)) ` set g)),
                Min_Deal_Value = Some (round2 (Min ((\<lambda>r. the (Deal_Value r)) ` set g))),
                Max_Deal_Value = Some (round2 (Max ((\<lambda>r. the (Deal_Value r)) ` set g))) \<rparr>]"
proof -
  have ok: "\<forall>r\<in>set data. Date r \<noteq> None \<and> Deal_Value r \<noteq> None"
    unfolding assms(1) by (rule filtered_complete)
  obtain r where "r \<in> set g" using assms(3) by (cases g) auto
  then have "Some b \<in> Buyer_List ` set data"
    unfolding assms(2) by force
  then have b: "b \<in> set (group_keys data)" by (simp add: set_group_keys)
  have "filter (\<lambda>s. Buyer s = b) (map (expected_summary_row data) (group_keys data)) =
        [expected_summary_row data b]"
    using distinct_group_keys b by (rule filter_map_key) (simp add: expected_summary_row_def)
  then show ?thesis
    by (simp add: prepare_complete [OF ok] expected_summary_row_def group_of_def assms(2))
qed

text \<open>Deals of 2.5, 7 and 3.25 on 5 January, 5 February and 5 March 2021.\<close>

lemma summary_row_computed_example:
  "\<exists>wb. prepare_excel_summary rows_abc = Inr wb \<and>
        filter (\<lambda>s. Buyer s = ''Alpha'') (Buyer_Summary wb) =
          [\<lparr> Buyer = ''Alpha'', Number_of_Deals = 3,
             First_Deal_Date = ''05-01-2021'', Last_Deal_Date = ''05-03-2021'',
             Min_Deal_Value = Some (5 / 2), Max_Deal_Value = Some 7 \<rparr>]"
proof -
  have 1: "rows_abc = filtered_df rows_abc (2021, 1, 1) (2021, 12, 31) 1"
    by (rule filtered_abc [symmetric])
  have 3: "filter (\<lambda>r. Buyer_List r = Some ''Alpha'') rows_abc \<noteq> []"
    by (simp add: rows_abc_def sample_def)
  have g: "filter (\<lambda>r. Buyer_List r = Some ''Alpha'') rows_abc =
        [sample ''Alpha'' ''T2'' (2021, 2, 5, 0) 7,
         sample ''Alpha'' ''T1'' (2021, 1, 5, 0) (5 / 2),
         sample ''Alpha'' ''T3'' (2021, 3, 5, 0) (13 / 4)]"
    by (simp add: rows_abc_def sample_def)
  have 4: "\<lparr> Buyer = ''Alpha'',
             Number_of_Deals = length (filter (\<lambda>r. Target_Company_Name r \<noteq> None)
               (filter (\<lambda>r. Buyer_List r = Some ''Alpha'') rows_abc)),
             First_Deal_Date = strftime (Min ((\<lambda>r. the (Date r)) `
               set (filter (\<lambda>r. Buyer_List r = Some ''Alpha'') rows_abc))),
             Last_Deal_Date = strftime (Max ((\<lambda>r. the (Date r)) `
               set (filter (\<lambda>r. Buyer_List r = Some ''Alpha'') rows_abc))),
             Min_Deal_Value = Some (round2 (Min ((\<lambda>r. the (Deal_Value r)) `
               set (filter (\<lambda>r. Buyer_List r = Some ''Alpha'') rows_abc)))),
             Max_Deal_Value = Some (round2 (Max ((\<lambda>r. the (Deal_Value r)) `
               set (filter (\<lambda>r. Buyer_List r = Some ''Alpha'') rows_abc)))) \<rparr> =
           \<lparr> Buyer = ''Alpha'', Number_of_Deals = 3,
             First_Deal_Date = ''05-01-2021'', Last_Deal_Date = ''05-03-2021'',
             Min_Deal_Value = Some (5 / 2), Max_Deal_Value = Some 7 \<rparr>"
    unfolding g
    by (simp add: sample_def round2_def rint_def strftime_def pad2_def digit_def)
  from summary_row_computed [OF 1 refl 3] show ?thesis
    unfolding 4 .
qed

section \<open>The claims about the report builder\<close>

text \<open>
  C1. The claim asks that exact duplicates count once in the summary sheet as they do in
  the details sheet. The code takes the summary of the frame as it is passed (line 49)
  and removes the duplicates afterwards (line 58). On the filtered frame of the deal that
  names the buyer Alpha twice, the summary sheet counts two deals, where the frame without
  the duplicate gives one; the details sheet has the deal once.
\<close>

theorem summary_counts_duplicate_rows:
  "filtered_df (load_data [deal_twice]) (2021, 1, 1) (2021, 12, 31) 0 = [row_twice, row_twice] \<and>
   drop_duplicates [row_twice, row_twice] = [row_twice] \<and>
   map_sum (\<lambda>e. e) (\<lambda>wb. map Number_of_Deals (Buyer_Summary wb))
     (prepare_excel_summary [row_twice, row_twice]) = Inr [2] \<and>
   map_sum (\<lambda>e. e) (\<lambda>wb. map Number_of_Deals (Buyer_Summary wb))
     (prepare_excel_summary [row_twice]) = Inr [1] \<and>
   map_sum (\<lambda>e. e) (\<lambda>wb. body (Buyer_Deal_Details wb))
     (prepare_excel_summary [row_twice, row_twice]) =
     Inr [[Text ''Alpha'', Text ''07-03-2021'', Text ''Acme'', Number 5]]"
  using load_twice filtered_twice drop_duplicates_twice prepare_twice prepare_once
  by simp

text \<open>
  C3. On the same filtered frame the panel of the buyer Alpha shows one deal, because
  lines 162 and 163 remove the duplicates before counting, and the row of Alpha in the
  summary sheet shows two.
\<close>

theorem panel_and_summary_disagree:
  "''Alpha'' \<in> set (unique_buyers [row_twice, row_twice]) \<and>
   render_buyer [row_twice, row_twice] ''Alpha'' =
     Inr (Some \<lparr> Total_Deals = 1,
                 First_Investment = ''07-03-2021'', Most_Recent_Investment = ''07-03-2021'',
                 Min_Deal_Value_shown = Some 5, Max_Deal_Value_shown = Some 5 \<rparr>) \<and>
   map_sum (\<lambda>e. e) (\<lambda>wb. filter (\<lambda>s. Buyer s = ''Alpha'') (Buyer_Summary wb))
     (prepare_excel_summary [row_twice, row_twice]) =
     Inr [\<lparr> Buyer = ''Alpha'', Number_of_Deals = 2,
            First_Deal_Date = ''07-03-2021'', Last_Deal_Date = ''07-03-2021'',
            Min_Deal_Value = Some 5, Max_Deal_Value = Some 5 \<rparr>]"
  using unique_buyers_twice render_twice prepare_twice
  by simp

text \<open>
  C5. The claim asks for the number of the buyer's deals in the summary row. Line 50
  takes the \<open>count\<close> of the target company column, which skips the cells that are
  missing. On the filtered frame whose only row is a deal of Alpha without a target
  company name, the summary sheet has a row for Alpha with a first and a last deal date
  and with 0 deals; the details sheet lists the deal, and the panel of Alpha, which
  counts the rows (line 170), shows one deal.
\<close>

theorem summary_skips_deal_without_target_name:
  "filtered_df [row_unnamed] (2021, 1, 1) (2021, 12, 31) 0 = [row_unnamed] \<and>
   ''Alpha'' \<in> set (unique_buyers [row_unnamed]) \<and>
   length (filter (\<lambda>r. Buyer_List r = Some ''Alpha'') [row_unnamed]) = 1 \<and>
   prepare_excel_summary [row_unnamed] =
     Inr \<lparr> Buyer_Summary =
             [\<lparr> Buyer = ''Alpha'', Number_of_Deals = 0,
                First_Deal_Date = ''03-06-2021'', Last_Deal_Date = ''03-06-2021'',
                Min_Deal_Value = Some 9, Max_Deal_Value = Some 9 \<rparr>],
           Buyer_Deal_Details =
             \<lparr> columns = [''Buyer Name'', ''Date 1'', ''Deal 1'', ''Deal Value 1 (in Mn USD)''],
               body = [[Text ''Alpha'', Text ''03-06-2021'', NA, Number 9]] \<rparr>,
           Details_Fill = [([2, 3, 4], ''e6f7ff'')] \<rparr> \<and>
   render_buyer [row_unnamed] ''Alpha'' =
     Inr (Some \<lparr> Total_Deals = 1,
                 First_Investment = ''03-06-2021'', Most_Recent_Investment = ''03-06-2021'',
                 Min_Deal_Value_shown = Some 9, Max_Deal_Value_shown = Some 9 \<rparr>)"
  using filtered_unnamed unique_buyers_unnamed prepare_unnamed render_unnamed
  by (simp add: row_unnamed_def)

text \<open>
  C7. For a filtered frame that is not empty the report builder returns a workbook whose
  details sheet has \<open>1 + 3 * m\<close> column headers, \<open>m\<close> being the largest number of deals
  of one buyer once the duplicates are removed; every row of the sheet has that many
  cells; and the row of a buyer is the buyer, the three cells of each of the buyer's
  \<open>d\<close> deals, and \<open>3 * (m - d)\<close> empty cells.
\<close>

theorem details_width_and_padding:
  assumes "data0 = filtered_df df from_date to_date deal_value" and "data0 \<noteq> []"
  shows "\<exists>wb. prepare_excel_summary data0 = Inr wb \<and>
           length (columns (Buyer_Deal_Details wb)) = 1 + 3 * max_deals data0 \<and>
           (\<forall>cells\<in>set (body (Buyer_Deal_Details wb)). length cells = 1 + 3 * max_deals data0) \<and>
           body (Buyer_Deal_Details wb) =
             map (\<lambda>b. text_cell b # deal_info (buyer_df (drop_duplicates data0) b) @
                      replicate (3 * (max_deals data0 - deal_count data0 b)) NA)
                 (unique (map Buyer_List (drop_duplicates data0)))"
proof -
  have ok: "\<forall>r\<in>set data0. Date r \<noteq> None \<and> Deal_Value r \<noteq> None"
    unfolding assms(1) by (rule filtered_complete)
  have "length (deal_info (buyer_df (drop_duplicates data0) b)) +
        3 * (max_deals data0 - deal_count data0 b) = 3 * max_deals data0" for b
    using deal_count_le_max [of data0 b] by (simp add: length_deal_info deal_count_def)
  then show ?thesis
    by (simp add: prepare_complete [OF ok] length_col_headers)
qed

text \<open>The example of the claim: buyers with one, three and five deals give 16 columns, and
  the row of the buyer with one deal ends in 12 empty cells.\<close>

theorem details_width_and_padding_witness:
  "\<exists>wb. prepare_excel_summary rows_135 = Inr wb \<and>
        length (columns (Buyer_Deal_Details wb)) = 16 \<and>
        (\<forall>cells\<in>set (body (Buyer_Deal_Details wb)). length cells = 16) \<and>
        body (Buyer_Deal_Details wb) ! 1 =
          [Text ''A'', Text ''05-02-2021'', Text ''T2'', Number 20] @ replicate 12 NA"
proof -
  have 1: "rows_135 = filtered_df rows_135 (2021, 1, 1) (2021, 12, 31) 10"
    by (rule filtered_135 [symmetric])
  have 2: "rows_135 \<noteq> []"
    by (simp add: rows_135_def)
  have 3: "unique (map Buyer_List rows_135) = [Some ''C'', Some ''A'', Some ''B'']"
    by (simp add: rows_135_def sample_def unique_def)
  have 4: "buyer_df rows_135 (Some ''A'') = [sample ''A'' ''T2'' (2021, 2, 5, 0) 20]"
    by (simp add: rows_135_def sample_def buyer_df_def sort_values_Date_def)
  have 5: "deal_info [sample ''A'' ''T2'' (2021, 2, 5, 0) 20] =
             [Text ''05-02-2021'', Text ''T2'', Number 20]"
    by (simp add: sample_def deal_info_def triple_def text_cell_def number_cell_def
        round2_def rint_def strftime_def pad2_def digit_def)
  from details_width_and_padding [OF 1 2] obtain wb where
    wb: "prepare_excel_summary rows_135 = Inr wb"
      "length (columns (Buyer_Deal_Details wb)) = 1 + 3 * max_deals rows_135"
      "\<forall>cells\<in>set (body (Buyer_Deal_Details wb)). length cells = 1 + 3 * max_deals rows_135"
      "body (Buyer_Deal_Details wb) =
         map (\<lambda>b. text_cell b # deal_info (buyer_df (drop_duplicates rows_135) b) @
                  replicate (3 * (max_deals rows_135 - deal_count rows_135 b)) NA)
             (unique (map Buyer_List (drop_duplicates rows_135)))"
    by blast
  have "body (Buyer_Deal_Details wb) ! 1 =
          [Text ''A'', Text ''05-02-2021'', Text ''T2'', Number 20] @ replicate 12 NA"
    unfolding wb(4) drop_duplicates_135 3
    by (simp add: deal_count_def drop_duplicates_135 max_deals_135 4 5 text_cell_def)
  then show ?thesis
    using wb(1,2,3) by (simp add: max_deals_135)
qed

text \<open>
  C8. The claim asks for the colour of index \<open>j mod 4\<close> on the group at slot \<open>j\<close>. Line 114
  computes \<open>(i-1// 3) % 4\<close>, which is \<open>i % 4\<close> since \<open>1 // 3\<close> is 0, with \<open>i = 3 * j + 1\<close>.
  In the workbook of a buyer with two deals the first group (slot 0, sheet columns 2 to 4)
  gets the second colour of the palette and the second group (slot 1, columns 5 to 7) the
  first.
\<close>

theorem fill_color_of_first_groups:
  "prepare_excel_summary (filtered_df (load_data sheet_two) (2021, 1, 1) (2021, 12, 31) 1) =
     Inr workbook_two \<and>
   Details_Fill workbook_two = [([2, 3, 4], ''e6f7ff''), ([5, 6, 7], ''f2f2f2'')] \<and>
   drop 1 (light_colors ! (0 mod 4)) = ''f2f2f2'' \<and>
   drop 1 (light_colors ! (1 mod 4)) = ''e6f7ff''"
  using prepare_two
  by (simp add: workbook_two_def light_colors_def)

text \<open>
  C9. Take the workbook made from a filtered frame of loaded data whose timestamps are
  timestamps of pandas. Every row of the details sheet belongs to a value \<open>b\<close> of the
  buyer column: its cells are \<open>b\<close>, then the three cells of each row of \<open>rows\<close>, then
  empty cells, where \<open>rows\<close> is what line 63 makes of the frame without duplicates, a
  rearrangement of the rows of \<open>b\<close> in it. Of two triples of the row, the later one has
  the later or the same timestamp; the first cell of a triple is that timestamp as
  day-month-year, and the days that the two cells show are in the same order.
\<close>

theorem details_triples_date_ascending:
  assumes "\<forall>d\<in>set sheet. \<forall>t. Date d = Some t \<longrightarrow> valid_timestamp t"
    and "data0 = filtered_df (load_data sheet) from_date to_date deal_value"
    and "prepare_excel_summary data0 = Inr wb"
    and "cells \<in> set (body (Buyer_Deal_Details wb))"
  shows "\<exists>b rows.
           rows = buyer_df (drop_duplicates data0) b \<and>
           mset rows = mset (filter (\<lambda>r. eq_na (Buyer_List r) b) (drop_duplicates data0)) \<and>
           cells = text_cell b # deal_info rows @
                   replicate (3 * (max_deals data0 - length rows)) NA \<and>
           (\<forall>i j. i \<le> j \<longrightarrow> j < length rows \<longrightarrow>
              (\<exists>ti tj. Date (rows ! i) = Some ti \<and> Date (rows ! j) = Some tj \<and> ti \<le> tj \<and>
                 cells ! (1 + 3 * i) = Text (strftime ti) \<and>
                 cells ! (1 + 3 * j) = Text (strftime tj) \<and>
                 date_shown (cells ! (1 + 3 * i)) = Some (date_of ti) \<and>
                 date_shown (cells ! (1 + 3 * j)) = Some (date_of tj) \<and>
                 date_of ti \<le> date_of tj))"
proof -
  have ok: "\<forall>r\<in>set data0. Date r \<noteq> None \<and> Deal_Value r \<noteq> None"
    unfolding assms(2) by (rule filtered_complete)
  from assms(3,4) obtain b where
    cells: "cells = text_cell b # deal_info (buyer_df (drop_duplicates data0) b) @
                   replicate (3 * (max_deals data0 - deal_count data0 b)) NA"
    by (auto simp: prepare_complete [OF ok])
  define rows where "rows = buyer_df (drop_duplicates data0) b"
  have cells': "cells = text_cell b # deal_info rows @
                   replicate (3 * (max_deals data0 - length rows)) NA"
    using cells by (simp add: rows_def deal_count_def)
  have sub: "set rows \<subseteq> set data0"
    unfolding rows_def using set_buyer_df drop_duplicates_subset by blast
  have row: "\<exists>t. Date r = Some t \<and> valid_timestamp t \<and> Formatted_Date r = Some (strftime t)"
    if "r \<in> set rows" for r
  proof -
    have r: "r \<in> set data0" using that sub by blast
    then have l: "r \<in> set (load_data sheet)" by (simp add: assms(2) filtered_df_def)
    obtain t where t: "Date r = Some t" using ok r by blast
    obtain d where "d \<in> set sheet" "Date r = Date d"
      using load_data_dates [OF l] by blast
    then have "valid_timestamp t" using assms(1) t by metis
    moreover have "Formatted_Date r = Some (strftime t)"
      using load_data_formatted [OF l] t by simp
    ultimately show ?thesis using t by blast
  qed
  have shown: "\<exists>t. Date (rows ! j) = Some t \<and> cells ! (1 + 3 * j) = Text (strftime t) \<and>
                  date_shown (cells ! (1 + 3 * j)) = Some (date_of t)"
    if jl: "j < length rows" for j
  proof -
    obtain t where t: "Date (rows ! j) = Some t" "valid_timestamp t"
        "Formatted_Date (rows ! j) = Some (strftime t)"
      using row [OF nth_mem [OF jl]] by blast
    have "cells ! (1 + 3 * j) = text_cell (Formatted_Date (rows ! j))"
      unfolding cells' using jl by (rule details_row_nth_date)
    then have "cells ! (1 + 3 * j) = Text (strftime t)"
      by (simp add: t(3) text_cell_def)
    then show ?thesis
      using t(1) date_shown_strftime [OF t(2)] by simp
  qed
  have srt: "sorted (map (\<lambda>r. the (Date r)) rows)"
    using sub ok by (intro sorted_dates) (auto simp: rows_def sorted_buyer_df)
  have asc: "\<exists>ti tj. Date (rows ! i) = Some ti \<and> Date (rows ! j) = Some tj \<and> ti \<le> tj \<and>
                 cells ! (1 + 3 * i) = Text (strftime ti) \<and>
                 cells ! (1 + 3 * j) = Text (strftime tj) \<and>
                 date_shown (cells ! (1 + 3 * i)) = Some (date_of ti) \<and>
                 date_shown (cells ! (1 + 3 * j)) = Some (date_of tj) \<and>
                 date_of ti \<le> date_of tj"
    if ij: "i \<le> j" and jl: "j < length rows" for i j
  proof -
    have i: "i < length rows" using ij jl by simp
    obtain ti where ti: "Date (rows ! i) = Some ti" "cells ! (1 + 3 * i) = Text (strftime ti)"
        "date_shown (cells ! (1 + 3 * i)) = Some (date_of ti)"
      using shown [OF i] by blast
    obtain tj where tj: "Date (rows ! j) = Some tj" "cells ! (1 + 3 * j) = Text (strftime tj)"
        "date_shown (cells ! (1 + 3 * j)) = Some (date_of tj)"
      using shown [OF jl] by blast
    have "map (\<lambda>r. the (Date r)) rows ! i \<le> map (\<lambda>r. the (Date r)) rows ! j"
      using srt ij jl by (simp add: sorted_iff_nth_mono)
    then have "ti \<le> tj" using ti(1) tj(1) i jl by simp
    then show ?thesis using ti tj date_of_mono by blast
  qed
  have "mset rows = mset (filter (\<lambda>r. eq_na (Buyer_List r) b) (drop_duplicates data0))"
    unfolding rows_def by (rule mset_buyer_df)
  then show ?thesis using rows_def cells' asc by blast
qed

text \<open>The sheet of two deals lists the deal of February before the deal of January; the
  row of the details sheet has them the other way round.\<close>

theorem details_triples_date_ascending_witness:
  "prepare_excel_summary (filtered_df (load_data sheet_two) (2021, 1, 1) (2021, 12, 31) 1) =
     Inr workbook_two \<and>
   body (Buyer_Deal_Details workbook_two) =
     [[Text ''Alpha'', Text ''05-01-2021'', Text ''T1'', Number 3,
       Text ''05-02-2021'', Text ''T2'', Number 7]] \<and>
   buyer_df (drop_duplicates (filtered_df (load_data sheet_two) (2021, 1, 1) (2021, 12, 31) 1))
     (Some ''Alpha'') =
     [sample ''Alpha'' ''T1'' (2021, 1, 5, 0) 3, sample ''Alpha'' ''T2'' (2021, 2, 5, 0) 7] \<and>
   (\<exists>ti tj.
      Date (sample ''Alpha'' ''T1'' (2021, 1, 5, 0) 3) = Some ti \<and>
      Date (sample ''Alpha'' ''T2'' (2021, 2, 5, 0) 7) = Some tj \<and>
      ti \<le> tj \<and>
      Text ''05-01-2021'' = Text (strftime ti) \<and>
      Text ''05-02-2021'' = Text (strftime tj) \<and>
      date_shown (Text ''05-01-2021'') = Some (date_of ti) \<and>
      date_shown (Text ''05-02-2021'') = Some (date_of tj) \<and>
      date_of ti \<le> date_of tj)"
proof -
  let ?data0 = "filtered_df (load_data sheet_two) (2021, 1, 1) (2021, 12, 31) 1"
  let ?cells = "[Text ''Alpha'', Text ''05-01-2021'', Text ''T1'', Number 3,
                 Text ''05-02-2021'', Text ''T2'', Number 7]"
  have v: "\<forall>d\<in>set sheet_two. \<forall>t. Date d = Some t \<longrightarrow> valid_timestamp t"
    by (simp add: sheet_two_def sample_deal_def valid_timestamp_def)
  have bd: "body (Buyer_Deal_Details workbook_two) = [?cells]"
    by (simp add: workbook_two_def)
  then have m: "?cells \<in> set (body (Buyer_Deal_Details workbook_two))"
    by simp
  have rows: "buyer_df (drop_duplicates ?data0) (Some ''Alpha'') =
        [sample ''Alpha'' ''T1'' (2021, 1, 5, 0) 3, sample ''Alpha'' ''T2'' (2021, 2, 5, 0) 7]"
    unfolding filtered_two
    by (simp add: sample_def drop_duplicates_def buyer_df_def sort_values_Date_def
        date_sort_key_def)
  from details_triples_date_ascending [OF v refl prepare_two m] obtain b rs where
    r: "rs = buyer_df (drop_duplicates ?data0) b"
    and c: "?cells = text_cell b # deal_info rs @
              replicate (3 * (max_deals ?data0 - length rs)) NA"
    and a: "\<forall>i j. i \<le> j \<longrightarrow> j < length rs \<longrightarrow>
              (\<exists>ti tj. Date (rs ! i) = Some ti \<and> Date (rs ! j) = Some tj \<and> ti \<le> tj \<and>
                 ?cells ! (1 + 3 * i) = Text (strftime ti) \<and>
                 ?cells ! (1 + 3 * j) = Text (strftime tj) \<and>
                 date_shown (?cells ! (1 + 3 * i)) = Some (date_of ti) \<and>
                 date_shown (?cells ! (1 + 3 * j)) = Some (date_of tj) \<and>
                 date_of ti \<le> date_of tj)"
    by blast
  have "b = Some ''Alpha''"
    using c by (cases b) (simp_all add: text_cell_def)
  then have rs: "rs = [sample ''Alpha'' ''T1'' (2021, 1, 5, 0) 3,
                       sample ''Alpha'' ''T2'' (2021, 2, 5, 0) 7]"
    using r rows by simp
  have "(0::nat) \<le> 1" and "1 < length rs"
    by (simp_all add: rs)
  with a have "\<exists>ti tj. Date (rs ! 0) = Some ti \<and> Date (rs ! 1) = Some tj \<and> ti \<le> tj \<and>
                 ?cells ! (1 + 3 * 0) = Text (strftime ti) \<and>
                 ?cells ! (1 + 3 * 1) = Text (strftime tj) \<and>
                 date_shown (?cells ! (1 + 3 * 0)) = Some (date_of ti) \<and>
                 date_shown (?cells ! (1 + 3 * 1)) = Some (date_of tj) \<and>
                 date_of ti \<le> date_of tj"
    by blast
  then have "\<exists>ti tj.
      Date (sample ''Alpha'' ''T1'' (2021, 1, 5, 0) 3) = Some ti \<and>
      Date (sample ''Alpha'' ''T2'' (2021, 2, 5, 0) 7) = Some tj \<and>
      ti \<le> tj \<and>
      Text ''05-01-2021'' = Text (strftime ti) \<and>
      Text ''05-02-2021'' = Text (strftime tj) \<and>
      date_shown (Text ''05-01-2021'') = Some (date_of ti) \<and>
      date_shown (Text ''05-02-2021'') = Some (date_of tj) \<and>
      date_of ti \<le> date_of tj"
    unfolding rs by simp
  with prepare_two bd rows show ?thesis by blast
qed

end
